theory Spec2Isabelle
  imports Complex_Main
begin

section \<open>Python values, exceptions and sequencing\<close>

text \<open>
  The arbitrage notebook is Python on top of pandas and Pyomo.  Numbers are modelled as
  \<^typ>\<open>real\<close> (rounding of floats is abstracted away), time indices as \<^typ>\<open>int\<close>.
  Every exception the code can raise is a value of \<open>error\<close>; a computation that can
  raise returns \<open>error + 'a\<close> with \<open>Inl\<close> carrying the exception.
\<close>

datatype error =
    NameError string
  | KeyError string
  | AttributeError string
  | IndexError
  | ZeroDivisionError
  | ValueError

definition and_then :: "error + 'a \<Rightarrow> ('a \<Rightarrow> error + 'b) \<Rightarrow> error + 'b" where
  "and_then r f = (case r of Inl e \<Rightarrow> Inl e | Inr x \<Rightarrow> f x)"

definition raised :: "error + 'a \<Rightarrow> bool" where
  "raised r = (case r of Inl e \<Rightarrow> True | Inr x \<Rightarrow> False)"

text \<open>
  A comprehension or an indexed Pyomo component evaluates its rule for the members of the
  index in order; the first exception aborts the whole construction.
\<close>

fun traverse :: "('a \<Rightarrow> error + 'b) \<Rightarrow> 'a list \<Rightarrow> error + 'b list" where
  "traverse f [] = Inr []"
| "traverse f (x # xs) =
     (case f x of
        Inl e \<Rightarrow> Inl e
      | Inr y \<Rightarrow> (case traverse f xs of Inl e \<Rightarrow> Inl e | Inr ys \<Rightarrow> Inr (y # ys)))"

subsection \<open>Dictionaries and data frames\<close>

text \<open>\<open>d[k]\<close> on a dict raises \<open>KeyError\<close> for a missing key.\<close>

definition getitem :: "(string \<rightharpoonup> real) \<Rightarrow> string \<Rightarrow> error + real" where
  "getitem d k = (case d k of None \<Rightarrow> Inl (KeyError k) | Some v \<Rightarrow> Inr v)"

text \<open>
  A data frame read by \<open>pd.read_csv(..., index_col=0, parse_dates=True)\<close>: a timestamp
  index and named numeric columns.  \<open>len(df)\<close> is the number of index entries.
\<close>

record dataframe =
  index :: "string list"
  columns :: "string \<rightharpoonup> real list"

definition len :: "dataframe \<Rightarrow> nat" where
  "len d = length (index d)"

text \<open>\<open>profile.price\<close>: attribute access to a column.\<close>

definition getattr :: "dataframe \<Rightarrow> string \<Rightarrow> error + real list" where
  "getattr d c = (case columns d c of None \<Rightarrow> Inl (AttributeError c) | Some xs \<Rightarrow> Inr xs)"

text \<open>
  \<open>series[t]\<close> with an integer \<open>t\<close> on a series whose index holds timestamps is a
  positional read: negative positions count from the end, a position outside the series
  raises \<open>IndexError\<close>.
\<close>

definition series_getitem :: "real list \<Rightarrow> int \<Rightarrow> error + real" where
  "series_getitem xs t =
     (let n = int (length xs); j = (if t < 0 then n + t else t)
      in if 0 \<le> j \<and> j < n then Inr (xs ! nat j) else Inl IndexError)"

text \<open>
  \<open>df[c] = values\<close> sets a column; pandas raises \<open>ValueError\<close> when the list is not as
  long as the index.
\<close>

definition setitem :: "dataframe \<Rightarrow> string \<Rightarrow> real list \<Rightarrow> error + dataframe" where
  "setitem d c xs =
     (if length xs = len d then Inr (d\<lparr>columns := (columns d)(c \<mapsto> xs)\<rparr>) else Inl ValueError)"

section \<open>The Pyomo objects the notebook builds\<close>

datatype var = BessEnergy int | PowerCh int | PowerDch int

datatype domain = Reals | NonNegativeReals

datatype expr =
    Num real
  | Var var
  | Add expr expr
  | Sub expr expr
  | Mul expr expr

datatype relation = Le expr expr | Ge expr expr | Eq expr expr

datatype sense = minimize | maximize

text \<open>
  \<open>RangeSet(a, b)\<close> holds the integers from \<open>a\<close> to \<open>b\<close>; it is empty for \<open>b = a - 1\<close>.
  \<open>first()\<close> and \<open>last()\<close> of an empty set raise \<open>IndexError\<close>.
\<close>

definition RangeSet :: "int \<Rightarrow> int \<Rightarrow> int list" where
  "RangeSet a b = [a..b]"

definition first :: "int list \<Rightarrow> error + int" where
  "first s = (case s of [] \<Rightarrow> Inl IndexError | x # xs \<Rightarrow> Inr x)"

definition last_member :: "int list \<Rightarrow> error + int" where
  "last_member s = (if s = [] then Inl IndexError else Inr (last s))"

text \<open>
  \<open>m.power_ch[t]\<close>: the member \<open>t\<close> of a variable indexed by the time set; an index
  outside the set raises \<open>KeyError\<close>.
\<close>

definition var_getitem :: "int list \<Rightarrow> string \<Rightarrow> (int \<Rightarrow> var) \<Rightarrow> int \<Rightarrow> error + expr" where
  "var_getitem s name v t = (if t \<in> set s then Inr (Var (v t)) else Inl (KeyError name))"

text \<open>
  \<open>Constraint(model.time, rule=r)\<close> calls \<open>r(m, t)\<close> for every \<open>t\<close> of the set, in order.
  Pyomo also refuses a constraint whose constant bound is not finite.  With real numbers
  every bound is finite; a float product that overflows (or a parameter that is \<open>inf\<close>
  or \<open>nan\<close>) is outside this model, so the code may raise where the model returns.
  The theorems about the builder therefore speak of the models that are returned; that
  the code returns one is used only at concrete inputs, whose bounds are small.
\<close>

definition Constraint :: "int list \<Rightarrow> (int \<Rightarrow> error + relation) \<Rightarrow> error + (int \<times> relation) list" where
  "Constraint s rule = traverse (\<lambda>t. and_then (rule t) (\<lambda>c. Inr (t, c))) s"

record lp_model =
  time :: "int list"
  bess_energy :: "int list \<times> domain"
  power_ch :: "int list \<times> domain"
  power_dch :: "int list \<times> domain"
  obj :: "sense \<times> expr"
  constraint_power_charge_limit :: "(int \<times> relation) list"
  constraint_power_discharge_limit :: "(int \<times> relation) list"
  constraint_energy_max :: "(int \<times> relation) list"
  constraint_energy_min :: "(int \<times> relation) list"
  constraint_soc_balance :: "(int \<times> relation) list"
  constraint_soc_end :: relation

subsection \<open>What an assignment of values satisfies\<close>

fun eval :: "(var \<Rightarrow> real) \<Rightarrow> expr \<Rightarrow> real" where
  "eval a (Num c) = c"
| "eval a (Var v) = a v"
| "eval a (Add x y) = eval a x + eval a y"
| "eval a (Sub x y) = eval a x - eval a y"
| "eval a (Mul x y) = eval a x * eval a y"

fun holds :: "(var \<Rightarrow> real) \<Rightarrow> relation \<Rightarrow> bool" where
  "holds a (Le x y) = (eval a x \<le> eval a y)"
| "holds a (Ge x y) = (eval a x \<ge> eval a y)"
| "holds a (Eq x y) = (eval a x = eval a y)"

fun in_domain :: "domain \<Rightarrow> real \<Rightarrow> bool" where
  "in_domain Reals x = True"
| "in_domain NonNegativeReals x = (0 \<le> x)"

definition var_ok :: "(var \<Rightarrow> real) \<Rightarrow> (int \<Rightarrow> var) \<Rightarrow> int list \<times> domain \<Rightarrow> bool" where
  "var_ok a v d = list_all (\<lambda>t. in_domain (snd d) (a (v t))) (fst d)"

definition family_ok :: "(var \<Rightarrow> real) \<Rightarrow> (int \<times> relation) list \<Rightarrow> bool" where
  "family_ok a cs = list_all (\<lambda>tc. holds a (snd tc)) cs"

definition feasible :: "(var \<Rightarrow> real) \<Rightarrow> lp_model \<Rightarrow> bool" where
  "feasible a m =
     (var_ok a BessEnergy (bess_energy m) \<and> var_ok a PowerCh (power_ch m) \<and>
      var_ok a PowerDch (power_dch m) \<and>
      family_ok a (constraint_power_charge_limit m) \<and>
      family_ok a (constraint_power_discharge_limit m) \<and>
      family_ok a (constraint_energy_max m) \<and>
      family_ok a (constraint_energy_min m) \<and>
      family_ok a (constraint_soc_balance m) \<and>
      holds a (constraint_soc_end m))"

section \<open>The arbitrage model builder\<close>

text \<open>
  The rules are the inner functions of the builder.  They read the model \<open>m\<close> only
  through its time set and its three variables, all indexed by the time set, so they take
  the time set \<open>s\<close> in its place; the storage parameters and \<open>dt\<close>, which they
  capture from the enclosing function, are arguments too.

  \<open>sum(... for t in model.time)\<close> starts from \<open>0\<close> and adds the terms from left to right.
\<close>

definition objective_rule :: "int list \<Rightarrow> real \<Rightarrow> dataframe \<Rightarrow> error + expr" where
  "objective_rule s dt profile =
     and_then
       (traverse (\<lambda>t.
          and_then (var_getitem s ''power_ch'' PowerCh t) (\<lambda>pc.
          and_then (var_getitem s ''power_dch'' PowerDch t) (\<lambda>pd.
          and_then (getattr profile ''price'') (\<lambda>price.
          and_then (series_getitem price t) (\<lambda>p.
          Inr (Mul (Mul (Sub pc pd) (Num dt)) (Num p))))))) s)
       (\<lambda>terms. Inr (foldl Add (Num 0) terms))"

definition power_charge_limit_rule :: "int list \<Rightarrow> real \<Rightarrow> real \<Rightarrow> int \<Rightarrow> error + relation" where
  "power_charge_limit_rule s capacity erate_ch t =
     and_then (var_getitem s ''power_ch'' PowerCh t) (\<lambda>pc. Inr (Le pc (Num (capacity * erate_ch))))"

definition power_discharge_limit_rule :: "int list \<Rightarrow> real \<Rightarrow> real \<Rightarrow> int \<Rightarrow> error + relation" where
  "power_discharge_limit_rule s capacity erate_dch t =
     and_then (var_getitem s ''power_dch'' PowerDch t) (\<lambda>pd. Inr (Le pd (Num (capacity * erate_dch))))"

definition energy_max_rule :: "int list \<Rightarrow> real \<Rightarrow> real \<Rightarrow> int \<Rightarrow> error + relation" where
  "energy_max_rule s capacity soc_max t =
     and_then (var_getitem s ''bess_energy'' BessEnergy t) (\<lambda>e. Inr (Le e (Num (capacity * soc_max))))"

definition energy_min_rule :: "int list \<Rightarrow> real \<Rightarrow> real \<Rightarrow> int \<Rightarrow> error + relation" where
  "energy_min_rule s capacity soc_min t =
     and_then (var_getitem s ''bess_energy'' BessEnergy t) (\<lambda>e. Inr (Ge e (Num (capacity * soc_min))))"

text \<open>\<open>1/eff_dch\<close> is a Python division: it raises for a zero divisor.\<close>

definition py_div :: "real \<Rightarrow> real \<Rightarrow> error + real" where
  "py_div x y = (if y = 0 then Inl ZeroDivisionError else Inr (x / y))"

definition soc_balance_rule ::
  "int list \<Rightarrow> real \<Rightarrow> real \<Rightarrow> real \<Rightarrow> real \<Rightarrow> real \<Rightarrow> int \<Rightarrow> error + relation" where
  "soc_balance_rule s dt capacity soc_init eff_ch eff_dch t =
     and_then (first s) (\<lambda>t0.
     if t = t0 then
       and_then (var_getitem s ''bess_energy'' BessEnergy t) (\<lambda>e.
       and_then (var_getitem s ''power_ch'' PowerCh t) (\<lambda>pc.
       and_then (var_getitem s ''power_dch'' PowerDch t) (\<lambda>pd.
       and_then (py_div 1 eff_dch) (\<lambda>r.
       Inr (Eq e (Sub (Add (Num (capacity * soc_init)) (Mul (Mul pc (Num eff_ch)) (Num dt)))
                      (Mul (Mul pd (Num r)) (Num dt))))))))
     else
       and_then (var_getitem s ''bess_energy'' BessEnergy t) (\<lambda>e.
       and_then (var_getitem s ''bess_energy'' BessEnergy (t - 1)) (\<lambda>e'.
       and_then (var_getitem s ''power_ch'' PowerCh t) (\<lambda>pc.
       and_then (var_getitem s ''power_dch'' PowerDch t) (\<lambda>pd.
       and_then (py_div 1 eff_dch) (\<lambda>r.
       Inr (Eq e (Sub (Add e' (Mul (Mul pc (Num eff_ch)) (Num dt)))
                      (Mul (Mul pd (Num r)) (Num dt))))))))))"

definition soc_end_rule :: "int list \<Rightarrow> real \<Rightarrow> real \<Rightarrow> error + relation" where
  "soc_end_rule s capacity soc_init =
     and_then (last_member s) (\<lambda>tl.
     and_then (var_getitem s ''bess_energy'' BessEnergy tl) (\<lambda>e.
     Inr (Ge e (Num (capacity * soc_init)))))"

text \<open>
  The section \<open>=== Sets ===\<close> of the builder, as a function of the series it measures:
  the number of timesteps, the constant \<open>dt\<close> and the time set.  A data frame is a
  mutable object, so the series is returned too, as it is after these statements: they
  only take its length.
\<close>

definition time_grid :: "dataframe \<Rightarrow> (int list \<times> real) \<times> dataframe" where
  "time_grid series = (let n = int (len series); dt = 1 / 4 in ((RangeSet 0 (n - 1), dt), series))"

text \<open>
  The series the builder measures is the notebook's global \<open>df\<close> (here the first
  argument; \<open>None\<close> when no such global is bound).
\<close>

definition sets :: "dataframe option \<Rightarrow> error + (int list \<times> real)" where
  "sets df =
     (case df of
        None \<Rightarrow> Inl (NameError ''df'')
      | Some d \<Rightarrow> Inr (fst (time_grid d)))"

text \<open>
  \<open>build_arbitrage_model(storage_params, profile)\<close>, with the global \<open>df\<close> it reads made
  an explicit first argument.  The components are constructed in the order of the source,
  so the first statement that raises decides the exception.
\<close>

definition build_arbitrage_model ::
  "dataframe option \<Rightarrow> (string \<rightharpoonup> real) \<Rightarrow> dataframe \<Rightarrow> error + lp_model" where
  "build_arbitrage_model df storage_params profile =
     and_then (sets df) (\<lambda>(s, dt).
     and_then (getitem storage_params ''capacity'') (\<lambda>capacity.
     and_then (getitem storage_params ''soc_init'') (\<lambda>soc_init.
     and_then (getitem storage_params ''soc_min'') (\<lambda>soc_min.
     and_then (getitem storage_params ''soc_max'') (\<lambda>soc_max.
     and_then (getitem storage_params ''erate_ch'') (\<lambda>erate_ch.
     and_then (getitem storage_params ''erate_dch'') (\<lambda>erate_dch.
     and_then (getitem storage_params ''eff_ch'') (\<lambda>eff_ch.
     and_then (getitem storage_params ''eff_dch'') (\<lambda>eff_dch.
     and_then (objective_rule s dt profile) (\<lambda>ob.
     and_then (Constraint s (power_charge_limit_rule s capacity erate_ch)) (\<lambda>c1.
     and_then (Constraint s (power_discharge_limit_rule s capacity erate_dch)) (\<lambda>c2.
     and_then (Constraint s (energy_max_rule s capacity soc_max)) (\<lambda>c3.
     and_then (Constraint s (energy_min_rule s capacity soc_min)) (\<lambda>c4.
     and_then (Constraint s (soc_balance_rule s dt capacity soc_init eff_ch eff_dch)) (\<lambda>c5.
     and_then (soc_end_rule s capacity soc_init) (\<lambda>c6.
     Inr \<lparr>time = s,
          bess_energy = (s, NonNegativeReals),
          power_ch = (s, NonNegativeReals),
          power_dch = (s, NonNegativeReals),
          obj = (minimize, ob),
          constraint_power_charge_limit = c1,
          constraint_power_discharge_limit = c2,
          constraint_energy_max = c3,
          constraint_energy_min = c4,
          constraint_soc_balance = c5,
          constraint_soc_end = c6\<rparr>))))))))))))))))"

section \<open>Writing the results into the data frame\<close>

text \<open>
  After \<open>solver.solve(model)\<close> the variables of the model hold the values the solver
  loaded, if it loaded any; the solver's termination condition is returned by the call
  and the notebook discards it.
\<close>

datatype termination_condition = optimal | infeasible | unbounded

record solution =
  condition :: termination_condition
  var_values :: "var \<rightharpoonup> real"

text \<open>\<open>opt.value(x)\<close> raises \<open>ValueError\<close> for a variable without value.\<close>

definition value_of :: "solution \<Rightarrow> var \<Rightarrow> error + real" where
  "value_of sol v = (case var_values sol v of None \<Rightarrow> Inl ValueError | Some x \<Rightarrow> Inr x)"

text \<open>
  The cell \<open># write results in dataframe\<close>: it reads the globals \<open>storage\<close>, \<open>model\<close>
  (of which only the time set is used, and the values its variables hold) and \<open>df\<close>.
\<close>

definition write_results ::
  "(string \<rightharpoonup> real) \<Rightarrow> lp_model \<Rightarrow> solution \<Rightarrow> dataframe \<Rightarrow> error + dataframe" where
  "write_results storage model sol df =
     and_then (getitem storage ''capacity'') (\<lambda>capacity.
     and_then (traverse (\<lambda>t.
        and_then (value_of sol (PowerCh t)) (\<lambda>pc.
        and_then (value_of sol (PowerDch t)) (\<lambda>pd. Inr (pc - pd)))) (time model)) (\<lambda>power.
     and_then (setitem df ''power'' power) (\<lambda>df1.
     and_then (traverse (\<lambda>t.
        and_then (value_of sol (BessEnergy t)) (\<lambda>e. py_div e capacity)) (time model)) (\<lambda>soc.
     setitem df1 ''soc'' soc))))"

text \<open>
  The cells that build and solve the model and write the results, with the solver a
  parameter: it is external, and all the notebook keeps of a solve is what the variables
  hold afterwards.  The notebook passes the global \<open>df\<close> as the profile.
\<close>

definition solve_and_write ::
  "(lp_model \<Rightarrow> solution) \<Rightarrow> (string \<rightharpoonup> real) \<Rightarrow> dataframe \<Rightarrow> error + dataframe" where
  "solve_and_write solver storage_params df =
     and_then (build_arbitrage_model (Some df) storage_params df) (\<lambda>model.
     write_results storage_params model (solver model) df)"

section \<open>Concrete inputs\<close>

text \<open>The storage parameters of the notebook.\<close>

definition storage :: "string \<rightharpoonup> real" where
  "storage =
     [''capacity'' \<mapsto> 1, ''soc_init'' \<mapsto> 0.5, ''soc_min'' \<mapsto> 0.1, ''soc_max'' \<mapsto> 0.9,
      ''erate_ch'' \<mapsto> 1, ''erate_dch'' \<mapsto> 1, ''eff_ch'' \<mapsto> 0.95, ''eff_dch'' \<mapsto> 0.95]"

text \<open>Quarter-hourly price series of four, two, one and no steps.\<close>

definition prices4 :: dataframe where
  "prices4 = \<lparr>index = [''00:00'', ''00:15'', ''00:30'', ''00:45''],
              columns = [''price'' \<mapsto> [10, 50, 10, 50]]\<rparr>"

definition prices2 :: dataframe where
  "prices2 = \<lparr>index = [''00:00'', ''00:15''], columns = [''price'' \<mapsto> [10, 50]]\<rparr>"

definition prices1 :: dataframe where
  "prices1 = \<lparr>index = [''00:00''], columns = [''price'' \<mapsto> [10]]\<rparr>"

definition prices0 :: dataframe where
  "prices0 = \<lparr>index = [], columns = [''price'' \<mapsto> []]\<rparr>"

definition storage_inverted :: "string \<rightharpoonup> real" where
  "storage_inverted = storage(''soc_min'' \<mapsto> 0.9, ''soc_max'' \<mapsto> 0.1)"

definition storage_lossy :: "string \<rightharpoonup> real" where
  "storage_lossy = storage(''eff_ch'' \<mapsto> 0, ''eff_dch'' \<mapsto> - 0.95)"

definition storage_negative :: "string \<rightharpoonup> real" where
  "storage_negative = storage(''capacity'' \<mapsto> - 1)"

definition storage_empty :: "string \<rightharpoonup> real" where
  "storage_empty = storage(''capacity'' \<mapsto> 0)"

section \<open>Sequencing and the Pyomo primitives\<close>

lemma and_then_Inr [simp]: "and_then (Inr x) f = f x"
  by (simp add: and_then_def)

lemma and_then_Inl [simp]: "and_then (Inl e) f = Inl e"
  by (simp add: and_then_def)

lemma and_then_eq_Inr: "and_then r f = Inr y \<longleftrightarrow> (\<exists>x. r = Inr x \<and> f x = Inr y)"
  by (cases r) simp_all

lemma raised_simps [simp]: "raised (Inl e)" "\<not> raised (Inr x)"
  by (simp_all add: raised_def)

lemma traverse_Inr: "(\<And>x. x \<in> set xs \<Longrightarrow> f x = Inr (g x)) \<Longrightarrow> traverse f xs = Inr (map g xs)"
  by (induction xs) simp_all

lemma traverse_Inl_first:
  "(\<And>y. y \<in> set ys \<Longrightarrow> f y = Inr (g y)) \<Longrightarrow> f z = Inl e \<Longrightarrow> traverse f (ys @ z # zs) = Inl e"
  by (induction ys) simp_all

lemma Constraint_Inr:
  "(\<And>t. t \<in> set s \<Longrightarrow> rule t = Inr (g t)) \<Longrightarrow> Constraint s rule = Inr (map (\<lambda>t. (t, g t)) s)"
  unfolding Constraint_def by (rule traverse_Inr) simp

lemma Constraint_Inl_head:
  "rule t = Inl e \<Longrightarrow> Constraint (t # s) rule = Inl e"
  by (simp add: Constraint_def)

lemma var_getitem_member [simp]: "t \<in> set s \<Longrightarrow> var_getitem s name v t = Inr (Var (v t))"
  by (simp add: var_getitem_def)

lemma RangeSet_set [simp]: "set (RangeSet a b) = {a..b}"
  by (simp add: RangeSet_def)

lemma first_upto: "0 \<le> n \<Longrightarrow> first [0..n] = Inr 0"
  by (simp add: first_def upto_rec1)

lemma objective_rule_Inr:
  assumes "columns profile ''price'' = Some price" and "n \<le> int (length price)"
  shows "objective_rule [0..n - 1] dt profile =
         Inr (foldl Add (Num 0)
               (map (\<lambda>t. Mul (Mul (Sub (Var (PowerCh t)) (Var (PowerDch t))) (Num dt)) (Num (price ! nat t)))
                    [0..n - 1]))"
proof -
  have "traverse (\<lambda>t.
          and_then (var_getitem [0..n - 1] ''power_ch'' PowerCh t) (\<lambda>pc.
          and_then (var_getitem [0..n - 1] ''power_dch'' PowerDch t) (\<lambda>pd.
          and_then (getattr profile ''price'') (\<lambda>price.
          and_then (series_getitem price t) (\<lambda>p.
          Inr (Mul (Mul (Sub pc pd) (Num dt)) (Num p))))))) [0..n - 1]
        = Inr (map (\<lambda>t. Mul (Mul (Sub (Var (PowerCh t)) (Var (PowerDch t))) (Num dt)) (Num (price ! nat t))) [0..n - 1])"
    using assms by (intro traverse_Inr) (auto simp: getattr_def series_getitem_def)
  then show ?thesis by (simp add: objective_rule_def)
qed

lemma objective_rule_no_price:
  assumes "columns profile ''price'' = None" and "0 < n"
  shows "objective_rule [0..n - 1] dt profile = Inl (AttributeError ''price'')"
proof -
  have "[0..n - 1] = 0 # [1..n - 1]" using assms by (simp add: upto_rec1)
  then show ?thesis using assms by (simp add: objective_rule_def getattr_def)
qed

lemma objective_rule_short:
  assumes "columns profile ''price'' = Some price" and "int (length price) < n"
  shows "objective_rule [0..n - 1] dt profile = Inl IndexError"
proof -
  let ?k = "int (length price)"
  have split: "[0..n - 1] = [0..?k - 1] @ ?k # [?k + 1..n - 1]"
    using assms by (intro upto_split3) auto
  have "traverse (\<lambda>t.
          and_then (var_getitem [0..n - 1] ''power_ch'' PowerCh t) (\<lambda>pc.
          and_then (var_getitem [0..n - 1] ''power_dch'' PowerDch t) (\<lambda>pd.
          and_then (getattr profile ''price'') (\<lambda>price.
          and_then (series_getitem price t) (\<lambda>p.
          Inr (Mul (Mul (Sub pc pd) (Num dt)) (Num p))))))) ([0..?k - 1] @ ?k # [?k + 1..n - 1])
        = Inl IndexError"
    using assms
    by (intro traverse_Inl_first[where g = "\<lambda>t. Mul (Mul (Sub (Var (PowerCh t)) (Var (PowerDch t))) (Num dt)) (Num (price ! nat t))"])
       (auto simp: getattr_def series_getitem_def split simp flip: split)
  then show ?thesis by (simp add: objective_rule_def flip: split)
qed

section \<open>What the builder returns\<close>

lemma power_charge_limit_rule_Inr:
  "t \<in> set s \<Longrightarrow> power_charge_limit_rule s capacity erate_ch t = Inr (Le (Var (PowerCh t)) (Num (capacity * erate_ch)))"
  by (simp add: power_charge_limit_rule_def)

lemma power_discharge_limit_rule_Inr:
  "t \<in> set s \<Longrightarrow> power_discharge_limit_rule s capacity erate_dch t = Inr (Le (Var (PowerDch t)) (Num (capacity * erate_dch)))"
  by (simp add: power_discharge_limit_rule_def)

lemma energy_max_rule_Inr:
  "t \<in> set s \<Longrightarrow> energy_max_rule s capacity soc_max t = Inr (Le (Var (BessEnergy t)) (Num (capacity * soc_max)))"
  by (simp add: energy_max_rule_def)

lemma energy_min_rule_Inr:
  "t \<in> set s \<Longrightarrow> energy_min_rule s capacity soc_min t = Inr (Ge (Var (BessEnergy t)) (Num (capacity * soc_min)))"
  by (simp add: energy_min_rule_def)

lemma soc_balance_rule_Inr:
  assumes "t \<in> set [0..n - 1]" and "eff_dch \<noteq> 0"
  shows "soc_balance_rule [0..n - 1] dt capacity soc_init eff_ch eff_dch t =
         Inr (Eq (Var (BessEnergy t))
                 (Sub (Add (if t = 0 then Num (capacity * soc_init) else Var (BessEnergy (t - 1)))
                           (Mul (Mul (Var (PowerCh t)) (Num eff_ch)) (Num dt)))
                      (Mul (Mul (Var (PowerDch t)) (Num (1 / eff_dch))) (Num dt))))"
proof -
  have n: "0 \<le> n - 1" using assms by simp
  have "t \<noteq> 0 \<Longrightarrow> t - 1 \<in> set [0..n - 1]" using assms by simp
  with assms show ?thesis
    by (simp add: soc_balance_rule_def first_upto[OF n] py_div_def)
qed

lemma soc_balance_rule_zero_div:
  assumes "0 < n"
  shows "soc_balance_rule [0..n - 1] dt capacity soc_init eff_ch 0 0 = Inl ZeroDivisionError"
proof -
  have n: "0 \<le> n - 1" using assms by simp
  then show ?thesis
    by (simp add: soc_balance_rule_def first_upto[OF n] py_div_def)
qed

lemma last_upto_int: "i \<le> j \<Longrightarrow> last [i..j] = j"
  by (simp add: upto_rec2)

lemma soc_end_rule_Inr:
  assumes "0 < n"
  shows "soc_end_rule [0..n - 1] capacity soc_init = Inr (Ge (Var (BessEnergy (n - 1))) (Num (capacity * soc_init)))"
proof -
  have "last [0..n - 1] = n - 1" using assms by (intro last_upto_int) simp
  then show ?thesis using assms by (simp add: soc_end_rule_def last_member_def)
qed

lemma soc_end_rule_empty: "soc_end_rule [] capacity soc_init = Inl IndexError"
  by (simp add: soc_end_rule_def last_member_def)

lemma build_arbitrage_model_eq:
  assumes "storage_params ''capacity'' = Some capacity"
    and "storage_params ''soc_init'' = Some soc_init"
    and "storage_params ''soc_min'' = Some soc_min"
    and "storage_params ''soc_max'' = Some soc_max"
    and "storage_params ''erate_ch'' = Some erate_ch"
    and "storage_params ''erate_dch'' = Some erate_dch"
    and "storage_params ''eff_ch'' = Some eff_ch"
    and "storage_params ''eff_dch'' = Some eff_dch"
  shows "build_arbitrage_model (Some d) storage_params profile =
    (if len d = 0 then Inl IndexError
     else case columns profile ''price'' of
       None \<Rightarrow> Inl (AttributeError ''price'')
     | Some price \<Rightarrow>
         if length price < len d then Inl IndexError
         else if eff_dch = 0 then Inl ZeroDivisionError
         else Inr \<lparr>time = [0..int (len d) - 1],
          bess_energy = ([0..int (len d) - 1], NonNegativeReals),
          power_ch = ([0..int (len d) - 1], NonNegativeReals),
          power_dch = ([0..int (len d) - 1], NonNegativeReals),
          obj = (minimize, foldl Add (Num 0)
               (map (\<lambda>t. Mul (Mul (Sub (Var (PowerCh t)) (Var (PowerDch t))) (Num (1 / 4))) (Num (price ! nat t)))
                    [0..int (len d) - 1])),
          constraint_power_charge_limit =
            map (\<lambda>t. (t, Le (Var (PowerCh t)) (Num (capacity * erate_ch)))) [0..int (len d) - 1],
          constraint_power_discharge_limit =
            map (\<lambda>t. (t, Le (Var (PowerDch t)) (Num (capacity * erate_dch)))) [0..int (len d) - 1],
          constraint_energy_max =
            map (\<lambda>t. (t, Le (Var (BessEnergy t)) (Num (capacity * soc_max)))) [0..int (len d) - 1],
          constraint_energy_min =
            map (\<lambda>t. (t, Ge (Var (BessEnergy t)) (Num (capacity * soc_min)))) [0..int (len d) - 1],
          constraint_soc_balance =
            map (\<lambda>t. (t, Eq (Var (BessEnergy t))
                 (Sub (Add (if t = 0 then Num (capacity * soc_init) else Var (BessEnergy (t - 1)))
                           (Mul (Mul (Var (PowerCh t)) (Num eff_ch)) (Num (1 / 4))))
                      (Mul (Mul (Var (PowerDch t)) (Num (1 / eff_dch))) (Num (1 / 4))))))
              [0..int (len d) - 1],
          constraint_soc_end = Ge (Var (BessEnergy (int (len d) - 1))) (Num (capacity * soc_init))\<rparr>)"
proof -
  let ?n = "int (len d)"
  let ?s = "[0..?n - 1]"
  have pre: "build_arbitrage_model (Some d) storage_params profile =
     and_then (objective_rule ?s (1 / 4) profile) (\<lambda>ob.
     and_then (Constraint ?s (power_charge_limit_rule ?s capacity erate_ch)) (\<lambda>c1.
     and_then (Constraint ?s (power_discharge_limit_rule ?s capacity erate_dch)) (\<lambda>c2.
     and_then (Constraint ?s (energy_max_rule ?s capacity soc_max)) (\<lambda>c3.
     and_then (Constraint ?s (energy_min_rule ?s capacity soc_min)) (\<lambda>c4.
     and_then (Constraint ?s (soc_balance_rule ?s (1 / 4) capacity soc_init eff_ch eff_dch)) (\<lambda>c5.
     and_then (soc_end_rule ?s capacity soc_init) (\<lambda>c6.
     Inr \<lparr>time = ?s,
          bess_energy = (?s, NonNegativeReals),
          power_ch = (?s, NonNegativeReals),
          power_dch = (?s, NonNegativeReals),
          obj = (minimize, ob),
          constraint_power_charge_limit = c1,
          constraint_power_discharge_limit = c2,
          constraint_energy_max = c3,
          constraint_energy_min = c4,
          constraint_soc_balance = c5,
          constraint_soc_end = c6\<rparr>)))))))"
    using assms by (simp add: build_arbitrage_model_def sets_def time_grid_def getitem_def RangeSet_def Let_def)
  have c1: "Constraint ?s (power_charge_limit_rule ?s capacity erate_ch) =
      Inr (map (\<lambda>t. (t, Le (Var (PowerCh t)) (Num (capacity * erate_ch)))) ?s)"
    by (intro Constraint_Inr power_charge_limit_rule_Inr)
  have c2: "Constraint ?s (power_discharge_limit_rule ?s capacity erate_dch) =
      Inr (map (\<lambda>t. (t, Le (Var (PowerDch t)) (Num (capacity * erate_dch)))) ?s)"
    by (intro Constraint_Inr power_discharge_limit_rule_Inr)
  have c3: "Constraint ?s (energy_max_rule ?s capacity soc_max) =
      Inr (map (\<lambda>t. (t, Le (Var (BessEnergy t)) (Num (capacity * soc_max)))) ?s)"
    by (intro Constraint_Inr energy_max_rule_Inr)
  have c4: "Constraint ?s (energy_min_rule ?s capacity soc_min) =
      Inr (map (\<lambda>t. (t, Ge (Var (BessEnergy t)) (Num (capacity * soc_min)))) ?s)"
    by (intro Constraint_Inr energy_min_rule_Inr)
  show ?thesis
  proof (cases "len d = 0")
    case True
    then show ?thesis
      by (simp add: pre objective_rule_def Constraint_def soc_end_rule_empty)
  next
    case pos: False
    then have n: "0 < ?n" by simp
    have hd: "?s = 0 # [1..?n - 1]" using n by (simp add: upto_rec1)
    show ?thesis
    proof (cases "columns profile ''price''")
      case None
      then show ?thesis using pos by (simp add: pre objective_rule_no_price[OF None n])
    next
      case (Some price)
      show ?thesis
      proof (cases "length price < len d")
        case True
        then have "int (length price) < ?n" by simp
        from objective_rule_short[OF Some this] show ?thesis
          using pos Some True by (simp add: pre)
      next
        case long: False
        then have "?n \<le> int (length price)" by simp
        note ob = objective_rule_Inr[OF Some this]
        show ?thesis
        proof (cases "eff_dch = 0")
          case True
          have "Constraint (0 # [1..?n - 1]) (soc_balance_rule ?s (1 / 4) capacity soc_init eff_ch eff_dch)
                = Inl ZeroDivisionError"
            using True soc_balance_rule_zero_div[OF n] by (intro Constraint_Inl_head) simp
          then have "Constraint ?s (soc_balance_rule ?s (1 / 4) capacity soc_init eff_ch eff_dch)
                = Inl ZeroDivisionError"
            using hd by simp
          then show ?thesis
            using pos Some long True by (simp add: pre ob c1 c2 c3 c4)
        next
          case False
          have c5: "Constraint ?s (soc_balance_rule ?s (1 / 4) capacity soc_init eff_ch eff_dch) =
            Inr (map (\<lambda>t. (t, Eq (Var (BessEnergy t))
                 (Sub (Add (if t = 0 then Num (capacity * soc_init) else Var (BessEnergy (t - 1)))
                           (Mul (Mul (Var (PowerCh t)) (Num eff_ch)) (Num (1 / 4))))
                      (Mul (Mul (Var (PowerDch t)) (Num (1 / eff_dch))) (Num (1 / 4)))))) ?s)"
            using False by (intro Constraint_Inr soc_balance_rule_Inr)
          show ?thesis
            using pos Some long False
            by (simp add: pre ob c1 c2 c3 c4 c5 soc_end_rule_Inr[OF n])
        qed
      qed
    qed
  qed
qed

lemma build_arbitrage_model_InrE:
  assumes "build_arbitrage_model df storage_params profile = Inr m"
  obtains d capacity soc_init soc_min soc_max erate_ch erate_dch eff_ch eff_dch
  where "df = Some d"
    and "storage_params ''capacity'' = Some capacity"
    and "storage_params ''soc_init'' = Some soc_init"
    and "storage_params ''soc_min'' = Some soc_min"
    and "storage_params ''soc_max'' = Some soc_max"
    and "storage_params ''erate_ch'' = Some erate_ch"
    and "storage_params ''erate_dch'' = Some erate_dch"
    and "storage_params ''eff_ch'' = Some eff_ch"
    and "storage_params ''eff_dch'' = Some eff_dch"
proof -
  from assms obtain d where d: "df = Some d"
    by (cases df) (simp_all add: build_arbitrage_model_def sets_def)
  have k: "\<exists>v. storage_params k = Some v"
    if "k \<in> {''capacity'', ''soc_init'', ''soc_min'', ''soc_max'', ''erate_ch'', ''erate_dch'', ''eff_ch'', ''eff_dch''}" for k
  proof (rule ccontr)
    assume "\<not> (\<exists>v. storage_params k = Some v)"
    then have "getitem storage_params k = Inl (KeyError k)" by (simp add: getitem_def)
    with that have "raised (build_arbitrage_model df storage_params profile)"
      unfolding build_arbitrage_model_def d sets_def time_grid_def Let_def
      by (auto simp: and_then_def split: sum.splits)
    with assms show False by simp
  qed
  from k obtain c1 c2 c3 c4 c5 c6 c7 c8 where
    "storage_params ''capacity'' = Some c1" "storage_params ''soc_init'' = Some c2"
    "storage_params ''soc_min'' = Some c3" "storage_params ''soc_max'' = Some c4"
    "storage_params ''erate_ch'' = Some c5" "storage_params ''erate_dch'' = Some c6"
    "storage_params ''eff_ch'' = Some c7" "storage_params ''eff_dch'' = Some c8"
    by (metis insertI1 insertI2)
  with d that show thesis by blast
qed

lemma built_model:
  assumes "build_arbitrage_model df storage_params profile = Inr m"
  obtains d capacity soc_init soc_min soc_max erate_ch erate_dch eff_ch eff_dch price
  where "df = Some d"
    and "storage_params ''capacity'' = Some capacity"
    and "storage_params ''soc_init'' = Some soc_init"
    and "storage_params ''soc_min'' = Some soc_min"
    and "storage_params ''soc_max'' = Some soc_max"
    and "storage_params ''erate_ch'' = Some erate_ch"
    and "storage_params ''erate_dch'' = Some erate_dch"
    and "storage_params ''eff_ch'' = Some eff_ch"
    and "storage_params ''eff_dch'' = Some eff_dch"
    and "columns profile ''price'' = Some price"
    and "0 < len d" and "len d \<le> length price" and "eff_dch \<noteq> 0"
    and "time m = [0..int (len d) - 1]"
    and "bess_energy m = ([0..int (len d) - 1], NonNegativeReals)"
    and "power_ch m = ([0..int (len d) - 1], NonNegativeReals)"
    and "power_dch m = ([0..int (len d) - 1], NonNegativeReals)"
    and "obj m = (minimize, foldl Add (Num 0)
               (map (\<lambda>t. Mul (Mul (Sub (Var (PowerCh t)) (Var (PowerDch t))) (Num (1 / 4))) (Num (price ! nat t)))
                    [0..int (len d) - 1]))"
    and "constraint_power_charge_limit m =
            map (\<lambda>t. (t, Le (Var (PowerCh t)) (Num (capacity * erate_ch)))) [0..int (len d) - 1]"
    and "constraint_power_discharge_limit m =
            map (\<lambda>t. (t, Le (Var (PowerDch t)) (Num (capacity * erate_dch)))) [0..int (len d) - 1]"
    and "constraint_energy_max m =
            map (\<lambda>t. (t, Le (Var (BessEnergy t)) (Num (capacity * soc_max)))) [0..int (len d) - 1]"
    and "constraint_energy_min m =
            map (\<lambda>t. (t, Ge (Var (BessEnergy t)) (Num (capacity * soc_min)))) [0..int (len d) - 1]"
    and "constraint_soc_balance m =
            map (\<lambda>t. (t, Eq (Var (BessEnergy t))
                 (Sub (Add (if t = 0 then Num (capacity * soc_init) else Var (BessEnergy (t - 1)))
                           (Mul (Mul (Var (PowerCh t)) (Num eff_ch)) (Num (1 / 4))))
                      (Mul (Mul (Var (PowerDch t)) (Num (1 / eff_dch))) (Num (1 / 4))))))
              [0..int (len d) - 1]"
    and "constraint_soc_end m = Ge (Var (BessEnergy (int (len d) - 1))) (Num (capacity * soc_init))"
proof -
  from assms obtain d capacity soc_init soc_min soc_max erate_ch erate_dch eff_ch eff_dch
    where d: "df = Some d"
    and k: "storage_params ''capacity'' = Some capacity"
      "storage_params ''soc_init'' = Some soc_init"
      "storage_params ''soc_min'' = Some soc_min"
      "storage_params ''soc_max'' = Some soc_max"
      "storage_params ''erate_ch'' = Some erate_ch"
      "storage_params ''erate_dch'' = Some erate_dch"
      "storage_params ''eff_ch'' = Some eff_ch"
      "storage_params ''eff_dch'' = Some eff_dch"
    by (rule build_arbitrage_model_InrE)
  note eq = build_arbitrage_model_eq[OF k, of d profile]
  from assms have b: "build_arbitrage_model (Some d) storage_params profile = Inr m"
    by (simp add: d)
  from b eq have n: "0 < len d" by (auto split: if_splits)
  from b eq n obtain price where p: "columns profile ''price'' = Some price"
    by (cases "columns profile ''price''") auto
  from b eq n p have l: "len d \<le> length price" and e: "eff_dch \<noteq> 0"
    by (auto split: if_splits)
  from b n l e have m: "Inr m = build_arbitrage_model (Some d) storage_params profile" by simp
  show thesis
    by (rule that[OF d k p n l e]; use m eq n p l e in \<open>simp; fail\<close>)
qed

lemma map_of_family:
  "map_of (map (\<lambda>t. (t, g t)) s) t = (if t \<in> set s then Some (g t) else None)"
  by (simp add: map_of_map_restrict restrict_map_def)

lemma storage_keys:
  "storage ''capacity'' = Some 1" "storage ''soc_init'' = Some 0.5"
  "storage ''soc_min'' = Some 0.1" "storage ''soc_max'' = Some 0.9"
  "storage ''erate_ch'' = Some 1" "storage ''erate_dch'' = Some 1"
  "storage ''eff_ch'' = Some 0.95" "storage ''eff_dch'' = Some 0.95"
  by (simp_all add: storage_def)

lemma upto_0_3: "[0..3::int] = [0, 1, 2, 3]"
  by (simp add: upto_rec1)

lemma build_prices4:
  "\<exists>m. build_arbitrage_model (Some prices4) storage prices4 = Inr m"
  by (simp add: build_arbitrage_model_eq[OF storage_keys] prices4_def len_def)

section \<open>The SOC balance\<close>

text \<open>
  C1.  Whenever the builder returns a model, its SOC-balance family has one equality per
  timestep of the time set, in order.  For the timestep that is the first member of the
  time set the equality is
  \<open>energy[t] = capacity * soc_init + power_ch[t] * eff_ch * dt - power_dch[t] * (1/eff_dch) * dt\<close>;
  for every other timestep \<open>t - 1\<close> is a timestep too and the equality is
  \<open>energy[t] = energy[t-1] + power_ch[t] * eff_ch * dt - power_dch[t] * (1/eff_dch) * dt\<close>.
  The step \<open>dt\<close> is the builder's constant \<open>0.25\<close>.
\<close>

theorem soc_balance_constraints:
  assumes "build_arbitrage_model df storage_params profile = Inr m"
    and "storage_params ''capacity'' = Some capacity"
    and "storage_params ''soc_init'' = Some soc_init"
    and "storage_params ''eff_ch'' = Some eff_ch"
    and "storage_params ''eff_dch'' = Some eff_dch"
  shows "map fst (constraint_soc_balance m) = time m \<and>
         (\<forall>t \<in> set (time m). \<exists>c. map_of (constraint_soc_balance m) t = Some c \<and>
            (\<forall>a. holds a c \<longleftrightarrow>
               (if first (time m) = Inr t
                then a (BessEnergy t) =
                       capacity * soc_init + a (PowerCh t) * eff_ch * (1 / 4)
                         - a (PowerDch t) * (1 / eff_dch) * (1 / 4)
                else t - 1 \<in> set (time m) \<and>
                     a (BessEnergy t) =
                       a (BessEnergy (t - 1)) + a (PowerCh t) * eff_ch * (1 / 4)
                         - a (PowerDch t) * (1 / eff_dch) * (1 / 4))))"
proof -
  from assms(1) obtain d capacity' soc_init' eff_ch' eff_dch'
    where k: "storage_params ''capacity'' = Some capacity'"
      "storage_params ''soc_init'' = Some soc_init'"
      "storage_params ''eff_ch'' = Some eff_ch'"
      "storage_params ''eff_dch'' = Some eff_dch'"
    and n: "0 < len d"
    and t: "time m = [0..int (len d) - 1]"
    and c: "constraint_soc_balance m =
            map (\<lambda>t. (t, Eq (Var (BessEnergy t))
                 (Sub (Add (if t = 0 then Num (capacity' * soc_init') else Var (BessEnergy (t - 1)))
                           (Mul (Mul (Var (PowerCh t)) (Num eff_ch')) (Num (1 / 4))))
                      (Mul (Mul (Var (PowerDch t)) (Num (1 / eff_dch'))) (Num (1 / 4))))))
              [0..int (len d) - 1]"
    by (rule built_model)
  from k assms have [simp]: "capacity' = capacity" "soc_init' = soc_init" "eff_ch' = eff_ch" "eff_dch' = eff_dch"
    by simp_all
  have f: "first (time m) = Inr 0"
    unfolding t using n by (intro first_upto) simp
  have "map fst (constraint_soc_balance m) = time m"
    by (simp add: c t comp_def)
  moreover have "\<exists>c. map_of (constraint_soc_balance m) t = Some c \<and>
            (\<forall>a. holds a c \<longleftrightarrow>
               (if first (time m) = Inr t
                then a (BessEnergy t) =
                       capacity * soc_init + a (PowerCh t) * eff_ch * (1 / 4)
                         - a (PowerDch t) * (1 / eff_dch) * (1 / 4)
                else t - 1 \<in> set (time m) \<and>
                     a (BessEnergy t) =
                       a (BessEnergy (t - 1)) + a (PowerCh t) * eff_ch * (1 / 4)
                         - a (PowerDch t) * (1 / eff_dch) * (1 / 4)))"
    if "t \<in> set (time m)" for t
  proof (cases "t = 0")
    case True
    with that show ?thesis by (simp add: f c map_of_family flip: t)
  next
    case False
    moreover from False that have "t - 1 \<in> set (time m)" by (simp add: t)
    ultimately show ?thesis using that by (simp add: f c map_of_family flip: t)
  qed
  ultimately show ?thesis by blast
qed

theorem soc_balance_constraints_witness:
  "\<exists>m. build_arbitrage_model (Some prices4) storage prices4 = Inr m \<and>
       map fst (constraint_soc_balance m) = [0, 1, 2, 3] \<and>
       (\<exists>c0 c1. map_of (constraint_soc_balance m) 0 = Some c0 \<and>
               map_of (constraint_soc_balance m) 1 = Some c1 \<and>
          holds ((\<lambda>v. 0)(BessEnergy 0 := 0.5)) c0 \<and>
          \<not> holds ((\<lambda>v. 0)(BessEnergy 1 := 0.5)) c1 \<and>
          holds ((\<lambda>v. 0)(BessEnergy 0 := 0.5, BessEnergy 1 := 0.5)) c1)"
proof -
  obtain m where b: "build_arbitrage_model (Some prices4) storage prices4 = Inr m"
    using build_prices4 by blast
  then obtain d where "Some prices4 = Some d" and "time m = [0..int (len d) - 1]"
    by (rule built_model)
  then have t: "time m = [0, 1, 2, 3]"
    by (auto simp: prices4_def len_def upto_0_3)
  note w = soc_balance_constraints[OF b storage_keys(1,2,7,8)]
  from w t have 1: "map fst (constraint_soc_balance m) = [0, 1, 2, 3]" by simp
  from w t obtain c0 where c0: "map_of (constraint_soc_balance m) 0 = Some c0"
    "\<forall>a. holds a c0 \<longleftrightarrow> a (BessEnergy 0) =
        1 * 0.5 + a (PowerCh 0) * 0.95 * (1 / 4) - a (PowerDch 0) * (1 / 0.95) * (1 / 4)"
    by (auto simp: first_def)
  from w t obtain c1 where c1: "map_of (constraint_soc_balance m) 1 = Some c1"
    "\<forall>a. holds a c1 \<longleftrightarrow> a (BessEnergy 1) =
        a (BessEnergy 0) + a (PowerCh 1) * 0.95 * (1 / 4) - a (PowerDch 1) * (1 / 0.95) * (1 / 4)"
    by (auto simp: first_def)
  show ?thesis
    using b 1 c0 c1 by (intro exI[of _ m] conjI exI[of _ c0] exI[of _ c1]) simp_all
qed

section \<open>The terminal state\<close>

lemma family_ok_map:
  "family_ok a (map (\<lambda>t. (t, g t)) s) \<longleftrightarrow> (\<forall>t \<in> set s. holds a (g t))"
  by (simp add: family_ok_def list_all_iff)

lemma var_ok_NonNegativeReals:
  "var_ok a v (s, NonNegativeReals) \<longleftrightarrow> (\<forall>t \<in> set s. 0 \<le> a (v t))"
  by (simp add: var_ok_def list_all_iff)

lemma eval_foldl_Add: "eval a (foldl Add e xs) = eval a e + sum_list (map (eval a) xs)"
  by (induction xs arbitrary: e) simp_all

lemma time_of_prices4:
  assumes "build_arbitrage_model (Some prices4) storage_params profile = Inr m"
  shows "time m = [0, 1, 2, 3]"
proof -
  from assms obtain d where "Some prices4 = Some d" and "time m = [0..int (len d) - 1]"
    by (rule built_model)
  then show ?thesis by (auto simp: prices4_def len_def upto_0_3)
qed

text \<open>
  C3.  Whenever the builder returns a model, the model has one terminal-state constraint:
  the scalar component \<open>constraint_soc_end\<close>, built by a single call of its rule.  It is
  the inequality \<open>energy[last] \<ge> capacity * soc_init\<close> at the last member of the time
  set, and hence every feasible assignment ends with at least the initial stored energy.
\<close>

theorem terminal_soc_constraint:
  assumes "build_arbitrage_model df storage_params profile = Inr m"
    and "storage_params ''capacity'' = Some capacity"
    and "storage_params ''soc_init'' = Some soc_init"
  shows "\<exists>tl. last_member (time m) = Inr tl \<and>
           constraint_soc_end m = Ge (Var (BessEnergy tl)) (Num (capacity * soc_init)) \<and>
           (\<forall>a. holds a (constraint_soc_end m) \<longleftrightarrow> capacity * soc_init \<le> a (BessEnergy tl)) \<and>
           (\<forall>a. feasible a m \<longrightarrow> capacity * soc_init \<le> a (BessEnergy tl))"
proof -
  from assms(1) obtain d capacity' soc_init'
    where k: "storage_params ''capacity'' = Some capacity'"
      "storage_params ''soc_init'' = Some soc_init'"
    and n: "0 < len d"
    and t: "time m = [0..int (len d) - 1]"
    and c: "constraint_soc_end m = Ge (Var (BessEnergy (int (len d) - 1))) (Num (capacity' * soc_init'))"
    by (rule built_model)
  from k assms have [simp]: "capacity' = capacity" "soc_init' = soc_init" by simp_all
  have "last [0..int (len d) - 1] = int (len d) - 1"
    using n by (intro last_upto_int) simp
  with n have l: "last_member (time m) = Inr (int (len d) - 1)"
    by (simp add: last_member_def t)
  have "feasible a m \<Longrightarrow> holds a (constraint_soc_end m)" for a
    by (simp add: feasible_def)
  with l c show ?thesis by auto
qed

theorem terminal_soc_constraint_witness:
  "\<exists>m. build_arbitrage_model (Some prices4) storage prices4 = Inr m \<and>
       last_member (time m) = Inr 3 \<and>
       constraint_soc_end m = Ge (Var (BessEnergy 3)) (Num 0.5) \<and>
       holds ((\<lambda>v. 0)(BessEnergy 3 := 0.7)) (constraint_soc_end m) \<and>
       \<not> holds ((\<lambda>v. 0)(BessEnergy 3 := 0.4)) (constraint_soc_end m)"
proof -
  obtain m where b: "build_arbitrage_model (Some prices4) storage prices4 = Inr m"
    using build_prices4 by blast
  have t: "time m = [0, 1, 2, 3]" using b by (rule time_of_prices4)
  from terminal_soc_constraint[OF b storage_keys(1,2)] obtain tl
    where "last_member (time m) = Inr tl"
      and "constraint_soc_end m = Ge (Var (BessEnergy tl)) (Num (1 * 0.5))"
    by blast
  then have "last_member (time m) = Inr 3 \<and> constraint_soc_end m = Ge (Var (BessEnergy 3)) (Num 0.5)"
    by (simp add: t last_member_def)
  with b show ?thesis by (intro exI[of _ m]) simp
qed

section \<open>The objective and the global data frame\<close>

lemma objective_of_built_model:
  assumes "build_arbitrage_model df storage_params profile = Inr m"
  shows "\<exists>price. columns profile ''price'' = Some price \<and>
           int (length (time m)) \<le> int (length price) \<and>
           fst (obj m) = minimize \<and>
           (\<forall>a. eval a (snd (obj m)) =
              (\<Sum>t \<in> set (time m). (a (PowerCh t) - a (PowerDch t)) * (1 / 4) * price ! nat t))"
proof -
  from assms obtain d price
    where p: "columns profile ''price'' = Some price"
    and l: "len d \<le> length price"
    and t: "time m = [0..int (len d) - 1]"
    and ob: "obj m = (minimize, foldl Add (Num 0)
               (map (\<lambda>t. Mul (Mul (Sub (Var (PowerCh t)) (Var (PowerDch t))) (Num (1 / 4))) (Num (price ! nat t)))
                    [0..int (len d) - 1]))"
    by (rule built_model)
  have "eval a (snd (obj m)) =
          (\<Sum>t \<in> set (time m). (a (PowerCh t) - a (PowerDch t)) * (1 / 4) * price ! nat t)" for a
    unfolding t sum_set_upto_conv_sum_list_int
    by (simp add: ob eval_foldl_Add comp_def)
  with p l show ?thesis by (simp add: ob t)
qed

lemma upto_small: "[0..0::int] = [0]" "[0..1::int] = [0, 1]"
  by (simp_all add: upto_rec1)

text \<open>
  C2.  The objective is minimised, and it is the sum of
  \<open>(power_ch[t] - power_dch[t]) * dt * price[t]\<close> over the members of the time set, as
  \<open>objective_of_built_model\<close> shows.  The time set is measured on the global \<open>df\<close>,
  not on the profile: with a global frame of one row and a profile of two prices the
  objective holds the term of the first price only.
\<close>

theorem objective_stops_at_global_length:
  "map_sum id obj (build_arbitrage_model (Some prices1) storage prices2) =
     Inr (minimize, Add (Num 0) (Mul (Mul (Sub (Var (PowerCh 0)) (Var (PowerDch 0))) (Num (1 / 4))) (Num 10)))"
  by (simp add: build_arbitrage_model_eq[OF storage_keys] prices1_def prices2_def len_def upto_small)

text \<open>
  C6.  The builder is not a function of its arguments alone: with the same storage
  parameters and the same profile of two prices, the model has one timestep when the
  global \<open>df\<close> has one row and two timesteps when it has two.
\<close>

theorem time_set_follows_global_df:
  "map_sum id time (build_arbitrage_model (Some prices1) storage prices2) = Inr [0] \<and>
   map_sum id time (build_arbitrage_model (Some prices2) storage prices2) = Inr [0, 1]"
  by (simp add: build_arbitrage_model_eq[OF storage_keys] prices1_def prices2_def len_def upto_small)

section \<open>Invalid parameters, misaligned profiles and the time grid\<close>

lemma raised_iff: "raised r \<longleftrightarrow> (\<forall>x. r \<noteq> Inr x)"
  by (cases r) simp_all

lemma energy_band_of_feasible:
  assumes "build_arbitrage_model df storage_params profile = Inr m"
    and "storage_params ''capacity'' = Some capacity"
    and "storage_params ''soc_min'' = Some soc_min"
    and "storage_params ''soc_max'' = Some soc_max"
    and "feasible a m"
  shows "capacity * soc_min \<le> a (BessEnergy 0) \<and> a (BessEnergy 0) \<le> capacity * soc_max"
proof -
  from assms(1) obtain d capacity' soc_min' soc_max'
    where k: "storage_params ''capacity'' = Some capacity'"
      "storage_params ''soc_min'' = Some soc_min'"
      "storage_params ''soc_max'' = Some soc_max'"
    and n: "0 < len d"
    and c: "constraint_energy_max m =
            map (\<lambda>t. (t, Le (Var (BessEnergy t)) (Num (capacity' * soc_max')))) [0..int (len d) - 1]"
      "constraint_energy_min m =
            map (\<lambda>t. (t, Ge (Var (BessEnergy t)) (Num (capacity' * soc_min')))) [0..int (len d) - 1]"
    by (rule built_model)
  from k assms have [simp]: "capacity' = capacity" "soc_min' = soc_min" "soc_max' = soc_max"
    by simp_all
  from n have 0: "0 \<in> set [0..int (len d) - 1]" by simp
  from assms(5) have "family_ok a (constraint_energy_max m)" "family_ok a (constraint_energy_min m)"
    by (simp_all add: feasible_def)
  with 0 show ?thesis unfolding c family_ok_map by fastforce
qed

lemma storage_inverted_keys:
  "storage_inverted ''capacity'' = Some 1" "storage_inverted ''soc_init'' = Some 0.5"
  "storage_inverted ''soc_min'' = Some 0.9" "storage_inverted ''soc_max'' = Some 0.1"
  "storage_inverted ''erate_ch'' = Some 1" "storage_inverted ''erate_dch'' = Some 1"
  "storage_inverted ''eff_ch'' = Some 0.95" "storage_inverted ''eff_dch'' = Some 0.95"
  by (simp_all add: storage_inverted_def storage_def)

lemma storage_lossy_keys:
  "storage_lossy ''capacity'' = Some 1" "storage_lossy ''soc_init'' = Some 0.5"
  "storage_lossy ''soc_min'' = Some 0.1" "storage_lossy ''soc_max'' = Some 0.9"
  "storage_lossy ''erate_ch'' = Some 1" "storage_lossy ''erate_dch'' = Some 1"
  "storage_lossy ''eff_ch'' = Some 0" "storage_lossy ''eff_dch'' = Some (- 0.95)"
  by (simp_all add: storage_lossy_def storage_def)

lemma prices4_facts:
  "columns prices4 ''price'' = Some [10, 50, 10, 50]" "0 < len prices4"
  "len prices4 \<le> length [10, 50, 10, 50 :: real]" "len prices4 = 4"
  by (simp_all add: prices4_def len_def)

text \<open>
  C5, as stated, fails: the builder accepts the storage parameters with
  \<open>soc_min = 0.9\<close>, \<open>soc_max = 0.1\<close> and returns a model, and likewise for
  \<open>eff_ch = 0\<close>, \<open>eff_dch = -0.95\<close>.
\<close>

theorem invalid_storage_accepted:
  "\<not> raised (build_arbitrage_model (Some prices4) storage_inverted prices4) \<and>
   \<not> raised (build_arbitrage_model (Some prices4) storage_lossy prices4)"
proof -
  have "\<not> raised (build_arbitrage_model (Some prices4) storage_inverted prices4)"
    by (subst build_arbitrage_model_eq[OF storage_inverted_keys]) (simp add: prices4_facts)
  moreover
  have "\<not> raised (build_arbitrage_model (Some prices4) storage_lossy prices4)"
    by (subst build_arbitrage_model_eq[OF storage_lossy_keys]) (simp add: prices4_facts)
  ultimately show ?thesis by (rule conjI)
qed

text \<open>
  C5, amended.  The builder does not validate the storage parameters, so invalid ones
  are not rejected as such: the parameter sets above yield a model.  Whenever a model is
  returned for parameters with \<open>capacity > 0\<close> and \<open>soc_min > soc_max\<close>, it has no
  feasible assignment, so inverted bounds show up as infeasibility only.  Parameters with
  \<open>eff_dch = 0\<close> never yield a model: the division \<open>1/eff_dch\<close> of the SOC-balance
  rule raises.
\<close>

theorem storage_spec_not_validated:
  assumes "build_arbitrage_model df storage_params profile = Inr m"
    and "storage_params ''capacity'' = Some capacity"
    and "storage_params ''soc_min'' = Some soc_min"
    and "storage_params ''soc_max'' = Some soc_max"
    and "storage_params ''eff_dch'' = Some eff_dch"
  shows "eff_dch \<noteq> 0 \<and> (0 < capacity \<and> soc_max < soc_min \<longrightarrow> (\<forall>a. \<not> feasible a m))"
proof -
  from assms(1) obtain eff_dch' where "storage_params ''eff_dch'' = Some eff_dch'" and "eff_dch' \<noteq> 0"
    by (rule built_model)
  with assms(5) have 1: "eff_dch \<noteq> 0" by simp
  have 2: "\<not> feasible a m" if "0 < capacity" and "soc_max < soc_min" for a
  proof
    assume "feasible a m"
    with assms(1-4)
    have "capacity * soc_min \<le> a (BessEnergy 0)" "a (BessEnergy 0) \<le> capacity * soc_max"
      using energy_band_of_feasible by blast+
    then have "capacity * soc_min \<le> capacity * soc_max" by simp
    with that show False by simp
  qed
  from 1 2 show ?thesis by blast
qed

theorem storage_spec_not_validated_witness:
  "\<exists>m. build_arbitrage_model (Some prices4) storage_inverted prices4 = Inr m \<and>
       \<not> feasible (\<lambda>v. 1 / 2) m \<and> \<not> feasible (\<lambda>v. 0) m"
proof -
  have "\<exists>m. build_arbitrage_model (Some prices4) storage_inverted prices4 = Inr m"
    by (subst build_arbitrage_model_eq[OF storage_inverted_keys]) (simp add: prices4_facts)
  then obtain m where b: "build_arbitrage_model (Some prices4) storage_inverted prices4 = Inr m"
    by blast
  from storage_spec_not_validated[OF b storage_inverted_keys(1,3,4,8)]
  have "\<not> feasible (\<lambda>v. 1 / 2) m" "\<not> feasible (\<lambda>v. 0) m"
    by simp_all
  with b show ?thesis by blast
qed

lemma prices1_facts:
  "columns prices1 ''price'' = Some [10]" "0 < len prices1" "len prices1 = 1"
  by (simp_all add: prices1_def len_def)

lemma prices2_facts:
  "columns prices2 ''price'' = Some [10, 50]" "0 < len prices2" "len prices2 = 2"
  by (simp_all add: prices2_def len_def)

text \<open>
  C8.  The builder compares nothing: the time set is measured on the global \<open>df\<close> and
  the prices are read from the profile.  With a global frame of one row and a profile of
  two prices no error is raised; a model of one timestep is returned.
\<close>

theorem longer_profile_accepted:
  "map_option length (columns prices2 ''price'') = Some 2 \<and>
   map_sum id (\<lambda>m. length (time m)) (build_arbitrage_model (Some prices1) storage prices2) = Inr 1"
  by (simp add: build_arbitrage_model_eq[OF storage_keys] prices1_facts prices2_facts upto_small)

text \<open>
  C9, as stated, fails: for a series of length \<open>0\<close> the construction of the time grid
  does not fail; it yields the empty index set with \<open>dt = 0.25\<close>.
\<close>

theorem empty_series_time_grid:
  "time_grid prices0 = (([], 1 / 4), prices0)"
  by (simp add: time_grid_def prices0_def len_def RangeSet_def)

text \<open>
  C9, amended.  Given a series of length \<open>n\<close>, the construction of the time grid
  yields the index set \<open>{0, ..., n-1}\<close>, in order and without repetition, together
  with the constant \<open>dt = 0.25\<close>, which is not an input; it leaves the series as it
  was and has no other effect.  It checks neither \<open>n\<close> nor \<open>dt\<close> and does not fail:
  for \<open>n = 0\<close> the index set is empty.  The time set of every model the builder returns
  is such a grid and is not empty: on an empty grid the builder raises later.
\<close>

theorem time_grid_construction:
  "fst (time_grid series) = (RangeSet 0 (int (len series) - 1), 1 / 4) \<and>
   set (fst (fst (time_grid series))) = {0..<int (len series)} \<and>
   sorted (fst (fst (time_grid series))) \<and> distinct (fst (fst (time_grid series))) \<and>
   length (fst (fst (time_grid series))) = len series \<and>
   snd (time_grid series) = series \<and>
   (\<forall>df storage_params profile m.
      build_arbitrage_model df storage_params profile = Inr m \<longrightarrow>
        (\<exists>measured. time m = fst (fst (time_grid measured)) \<and> time m \<noteq> []))"
proof -
  have 1: "fst (time_grid series) = (RangeSet 0 (int (len series) - 1), 1 / 4)"
    "snd (time_grid series) = series"
    by (simp_all add: time_grid_def)
  have 2: "set (fst (fst (time_grid series))) = {0..<int (len series)}"
    "sorted (fst (fst (time_grid series)))" "distinct (fst (fst (time_grid series)))"
    "length (fst (fst (time_grid series))) = len series"
    by (auto simp: time_grid_def RangeSet_def)
  have 3: "\<exists>measured. time m = fst (fst (time_grid measured)) \<and> time m \<noteq> []"
    if "build_arbitrage_model df storage_params profile = Inr m" for df storage_params profile m
  proof -
    from that obtain d where "0 < len d" and "time m = [0..int (len d) - 1]"
      by (rule built_model)
    then have "time m = fst (fst (time_grid d)) \<and> time m \<noteq> []"
      by (simp add: time_grid_def RangeSet_def)
    then show ?thesis by blast
  qed
  from 1 2 3 show ?thesis by blast
qed

theorem time_grid_construction_witness:
  "time_grid prices4 = (([0, 1, 2, 3], 1 / 4), prices4) \<and>
   (\<exists>m. build_arbitrage_model (Some prices4) storage prices4 = Inr m \<and> time m \<noteq> [])"
proof -
  note w = time_grid_construction[of prices4]
  from w have "fst (time_grid prices4) = ([0, 1, 2, 3], 1 / 4)" "snd (time_grid prices4) = prices4"
    by (simp_all add: RangeSet_def prices4_facts upto_0_3)
  then have 1: "time_grid prices4 = (([0, 1, 2, 3], 1 / 4), prices4)"
    by (simp add: prod_eq_iff)
  obtain m where b: "build_arbitrage_model (Some prices4) storage prices4 = Inr m"
    using build_prices4 by blast
  with w have "time m \<noteq> []" by blast
  with 1 b show ?thesis by blast
qed

section \<open>The boxes of the variables\<close>

lemma storage_negative_keys:
  "storage_negative ''capacity'' = Some (- 1)" "storage_negative ''soc_init'' = Some 0.5"
  "storage_negative ''soc_min'' = Some 0.1" "storage_negative ''soc_max'' = Some 0.9"
  "storage_negative ''erate_ch'' = Some 1" "storage_negative ''erate_dch'' = Some 1"
  "storage_negative ''eff_ch'' = Some 0.95" "storage_negative ''eff_dch'' = Some 0.95"
  by (simp_all add: storage_negative_def storage_def)

lemma build_negative_prices1:
  "\<exists>m. build_arbitrage_model (Some prices1) storage_negative prices1 = Inr m"
  by (subst build_arbitrage_model_eq[OF storage_negative_keys]) (simp add: prices1_facts)

lemma time_of_prices1:
  assumes "build_arbitrage_model (Some prices1) storage_params profile = Inr m"
  shows "time m = [0]"
proof -
  from assms obtain d where "Some prices1 = Some d" and "time m = [0..int (len d) - 1]"
    by (rule built_model)
  then show ?thesis by (auto simp: prices1_facts upto_small)
qed

text \<open>
  C4, as stated, fails in its last part: with \<open>capacity = -1\<close> the builder returns a
  model whose bounds are \<open>power_ch[0] \<le> -1\<close>, \<open>power_dch[0] \<le> -1\<close> and
  \<open>energy[0] \<le> -0.9\<close>, which require negative values.
\<close>

theorem negative_capacity_bounds:
  "map_sum id (\<lambda>m. (constraint_power_charge_limit m, constraint_power_discharge_limit m,
                     constraint_energy_max m))
     (build_arbitrage_model (Some prices1) storage_negative prices1) =
   Inr ([(0, Le (Var (PowerCh 0)) (Num (- 1)))],
        [(0, Le (Var (PowerDch 0)) (Num (- 1)))],
        [(0, Le (Var (BessEnergy 0)) (Num (- 0.9)))])"
  by (subst build_arbitrage_model_eq[OF storage_negative_keys])
     (simp add: prices1_facts upto_small)

text \<open>
  C4, amended.  Whenever the builder returns a model, the three variable families are
  indexed by the time set and have the domain \<open>NonNegativeReals\<close>, which is where the
  lower bound \<open>0\<close> comes from; the four bound families say, for every timestep,
  \<open>power_ch[t] \<le> capacity * erate_ch\<close>, \<open>power_dch[t] \<le> capacity * erate_dch\<close> and
  \<open>capacity * soc_min \<le> energy[t] \<le> capacity * soc_max\<close>, so every feasible
  assignment lies in these boxes.  When \<open>capacity * erate_ch\<close>,
  \<open>capacity * erate_dch\<close>, \<open>capacity * soc_max\<close> and \<open>capacity * soc_init\<close> are
  not negative, no constraint requires a negative power or energy: each one is satisfied
  by some assignment without negative values.  An upper bound whose product is negative
  does require a negative value, at every timestep.
\<close>

theorem variable_boxes:
  assumes "build_arbitrage_model df storage_params profile = Inr m"
    and "storage_params ''capacity'' = Some capacity"
    and "storage_params ''soc_init'' = Some soc_init"
    and "storage_params ''soc_min'' = Some soc_min"
    and "storage_params ''soc_max'' = Some soc_max"
    and "storage_params ''erate_ch'' = Some erate_ch"
    and "storage_params ''erate_dch'' = Some erate_dch"
  shows "bess_energy m = (time m, NonNegativeReals) \<and>
         power_ch m = (time m, NonNegativeReals) \<and>
         power_dch m = (time m, NonNegativeReals) \<and>
         (\<forall>a. (var_ok a PowerCh (power_ch m) \<longleftrightarrow> (\<forall>t \<in> set (time m). 0 \<le> a (PowerCh t))) \<and>
              (var_ok a PowerDch (power_dch m) \<longleftrightarrow> (\<forall>t \<in> set (time m). 0 \<le> a (PowerDch t))) \<and>
              (var_ok a BessEnergy (bess_energy m) \<longleftrightarrow> (\<forall>t \<in> set (time m). 0 \<le> a (BessEnergy t))) \<and>
              (family_ok a (constraint_power_charge_limit m) \<longleftrightarrow>
                 (\<forall>t \<in> set (time m). a (PowerCh t) \<le> capacity * erate_ch)) \<and>
              (family_ok a (constraint_power_discharge_limit m) \<longleftrightarrow>
                 (\<forall>t \<in> set (time m). a (PowerDch t) \<le> capacity * erate_dch)) \<and>
              (family_ok a (constraint_energy_max m) \<longleftrightarrow>
                 (\<forall>t \<in> set (time m). a (BessEnergy t) \<le> capacity * soc_max)) \<and>
              (family_ok a (constraint_energy_min m) \<longleftrightarrow>
                 (\<forall>t \<in> set (time m). capacity * soc_min \<le> a (BessEnergy t))) \<and>
              (feasible a m \<longrightarrow>
                 (\<forall>t \<in> set (time m).
                    0 \<le> a (PowerCh t) \<and> a (PowerCh t) \<le> capacity * erate_ch \<and>
                    0 \<le> a (PowerDch t) \<and> a (PowerDch t) \<le> capacity * erate_dch \<and>
                    0 \<le> a (BessEnergy t) \<and>
                    capacity * soc_min \<le> a (BessEnergy t) \<and> a (BessEnergy t) \<le> capacity * soc_max))) \<and>
         (0 \<le> capacity * erate_ch \<and> 0 \<le> capacity * erate_dch \<and>
          0 \<le> capacity * soc_max \<and> 0 \<le> capacity * soc_init \<longrightarrow>
            (\<forall>tc \<in> set (constraint_power_charge_limit m). \<exists>a. holds a (snd tc) \<and> (\<forall>v. 0 \<le> a v)) \<and>
            (\<forall>tc \<in> set (constraint_power_discharge_limit m). \<exists>a. holds a (snd tc) \<and> (\<forall>v. 0 \<le> a v)) \<and>
            (\<forall>tc \<in> set (constraint_energy_max m). \<exists>a. holds a (snd tc) \<and> (\<forall>v. 0 \<le> a v)) \<and>
            (\<forall>tc \<in> set (constraint_energy_min m). \<exists>a. holds a (snd tc) \<and> (\<forall>v. 0 \<le> a v)) \<and>
            (\<forall>tc \<in> set (constraint_soc_balance m). \<exists>a. holds a (snd tc) \<and> (\<forall>v. 0 \<le> a v)) \<and>
            (\<exists>a. holds a (constraint_soc_end m) \<and> (\<forall>v. 0 \<le> a v))) \<and>
         (capacity * erate_ch < 0 \<longrightarrow>
            (\<forall>tc \<in> set (constraint_power_charge_limit m).
               \<forall>a. holds a (snd tc) \<longrightarrow> a (PowerCh (fst tc)) < 0)) \<and>
         (capacity * erate_dch < 0 \<longrightarrow>
            (\<forall>tc \<in> set (constraint_power_discharge_limit m).
               \<forall>a. holds a (snd tc) \<longrightarrow> a (PowerDch (fst tc)) < 0)) \<and>
         (capacity * soc_max < 0 \<longrightarrow>
            (\<forall>tc \<in> set (constraint_energy_max m).
               \<forall>a. holds a (snd tc) \<longrightarrow> a (BessEnergy (fst tc)) < 0))"
proof -
  from assms(1) obtain d capacity' soc_init' soc_min' soc_max' erate_ch' erate_dch' eff_ch eff_dch
    where k: "storage_params ''capacity'' = Some capacity'"
      "storage_params ''soc_init'' = Some soc_init'"
      "storage_params ''soc_min'' = Some soc_min'"
      "storage_params ''soc_max'' = Some soc_max'"
      "storage_params ''erate_ch'' = Some erate_ch'"
      "storage_params ''erate_dch'' = Some erate_dch'"
    and t: "time m = [0..int (len d) - 1]"
    and v: "bess_energy m = ([0..int (len d) - 1], NonNegativeReals)"
      "power_ch m = ([0..int (len d) - 1], NonNegativeReals)"
      "power_dch m = ([0..int (len d) - 1], NonNegativeReals)"
    and c: "constraint_power_charge_limit m =
            map (\<lambda>t. (t, Le (Var (PowerCh t)) (Num (capacity' * erate_ch')))) [0..int (len d) - 1]"
      "constraint_power_discharge_limit m =
            map (\<lambda>t. (t, Le (Var (PowerDch t)) (Num (capacity' * erate_dch')))) [0..int (len d) - 1]"
      "constraint_energy_max m =
            map (\<lambda>t. (t, Le (Var (BessEnergy t)) (Num (capacity' * soc_max')))) [0..int (len d) - 1]"
      "constraint_energy_min m =
            map (\<lambda>t. (t, Ge (Var (BessEnergy t)) (Num (capacity' * soc_min')))) [0..int (len d) - 1]"
    and b: "constraint_soc_balance m =
            map (\<lambda>t. (t, Eq (Var (BessEnergy t))
                 (Sub (Add (if t = 0 then Num (capacity' * soc_init') else Var (BessEnergy (t - 1)))
                           (Mul (Mul (Var (PowerCh t)) (Num eff_ch)) (Num (1 / 4))))
                      (Mul (Mul (Var (PowerDch t)) (Num (1 / eff_dch))) (Num (1 / 4))))))
              [0..int (len d) - 1]"
    and e: "constraint_soc_end m = Ge (Var (BessEnergy (int (len d) - 1))) (Num (capacity' * soc_init'))"
    by (rule built_model)
  from k assms have [simp]: "capacity' = capacity" "soc_init' = soc_init" "soc_min' = soc_min"
    "soc_max' = soc_max" "erate_ch' = erate_ch" "erate_dch' = erate_dch"
    by simp_all
  have dom: "bess_energy m = (time m, NonNegativeReals)" "power_ch m = (time m, NonNegativeReals)"
    "power_dch m = (time m, NonNegativeReals)"
    by (simp_all add: v t)
  have 1: "var_ok a PowerCh (power_ch m) \<longleftrightarrow> (\<forall>t \<in> set (time m). 0 \<le> a (PowerCh t))" for a
    unfolding dom by (rule var_ok_NonNegativeReals)
  have 2: "var_ok a PowerDch (power_dch m) \<longleftrightarrow> (\<forall>t \<in> set (time m). 0 \<le> a (PowerDch t))" for a
    unfolding dom by (rule var_ok_NonNegativeReals)
  have 3: "var_ok a BessEnergy (bess_energy m) \<longleftrightarrow> (\<forall>t \<in> set (time m). 0 \<le> a (BessEnergy t))" for a
    unfolding dom by (rule var_ok_NonNegativeReals)
  have 4: "family_ok a (constraint_power_charge_limit m) \<longleftrightarrow>
                 (\<forall>t \<in> set (time m). a (PowerCh t) \<le> capacity * erate_ch)" for a
    by (simp add: c t family_ok_map)
  have 5: "family_ok a (constraint_power_discharge_limit m) \<longleftrightarrow>
                 (\<forall>t \<in> set (time m). a (PowerDch t) \<le> capacity * erate_dch)" for a
    by (simp add: c t family_ok_map)
  have 6: "family_ok a (constraint_energy_max m) \<longleftrightarrow>
                 (\<forall>t \<in> set (time m). a (BessEnergy t) \<le> capacity * soc_max)" for a
    by (simp add: c t family_ok_map)
  have 7: "family_ok a (constraint_energy_min m) \<longleftrightarrow>
                 (\<forall>t \<in> set (time m). capacity * soc_min \<le> a (BessEnergy t))" for a
    by (simp add: c t family_ok_map)
  have 8: "\<forall>t \<in> set (time m).
                    0 \<le> a (PowerCh t) \<and> a (PowerCh t) \<le> capacity * erate_ch \<and>
                    0 \<le> a (PowerDch t) \<and> a (PowerDch t) \<le> capacity * erate_dch \<and>
                    0 \<le> a (BessEnergy t) \<and>
                    capacity * soc_min \<le> a (BessEnergy t) \<and> a (BessEnergy t) \<le> capacity * soc_max"
    if "feasible a m" for a
    using that unfolding feasible_def 1 2 3 4 5 6 7 by blast
  have n1: "\<forall>tc \<in> set (constraint_power_charge_limit m). \<exists>a. holds a (snd tc) \<and> (\<forall>v. 0 \<le> a v)"
    if "0 \<le> capacity * erate_ch"
    using that by (auto simp: c intro!: exI[of _ "\<lambda>v. 0"])
  have n2: "\<forall>tc \<in> set (constraint_power_discharge_limit m). \<exists>a. holds a (snd tc) \<and> (\<forall>v. 0 \<le> a v)"
    if "0 \<le> capacity * erate_dch"
    using that by (auto simp: c intro!: exI[of _ "\<lambda>v. 0"])
  have n3: "\<forall>tc \<in> set (constraint_energy_max m). \<exists>a. holds a (snd tc) \<and> (\<forall>v. 0 \<le> a v)"
    if "0 \<le> capacity * soc_max"
    using that by (auto simp: c intro!: exI[of _ "\<lambda>v. 0"])
  have n4: "\<forall>tc \<in> set (constraint_energy_min m). \<exists>a. holds a (snd tc) \<and> (\<forall>v. 0 \<le> a v)"
    by (auto simp: c intro!: exI[of _ "\<lambda>v. max 0 (capacity * soc_min)"])
  have n5: "\<forall>tc \<in> set (constraint_soc_balance m). \<exists>a. holds a (snd tc) \<and> (\<forall>v. 0 \<le> a v)"
    if "0 \<le> capacity * soc_init"
  proof
    fix tc
    assume "tc \<in> set (constraint_soc_balance m)"
    then obtain t where tc: "snd tc = Eq (Var (BessEnergy t))
                 (Sub (Add (if t = 0 then Num (capacity * soc_init) else Var (BessEnergy (t - 1)))
                           (Mul (Mul (Var (PowerCh t)) (Num eff_ch)) (Num (1 / 4))))
                      (Mul (Mul (Var (PowerDch t)) (Num (1 / eff_dch))) (Num (1 / 4))))"
      by (auto simp: b)
    show "\<exists>a. holds a (snd tc) \<and> (\<forall>v. 0 \<le> a v)"
    proof (cases "t = 0")
      case True
      with that have "holds ((\<lambda>v. 0)(BessEnergy 0 := capacity * soc_init)) (snd tc)"
        "\<forall>v. 0 \<le> ((\<lambda>v. 0)(BessEnergy 0 := capacity * soc_init)) v"
        by (simp_all add: tc)
      then show ?thesis by blast
    next
      case False
      then have "holds (\<lambda>v. 0) (snd tc)" "\<forall>v. 0 \<le> (\<lambda>v::var. 0::real) v"
        by (simp_all add: tc)
      then show ?thesis by blast
    qed
  qed
  have n6: "\<exists>a. holds a (constraint_soc_end m) \<and> (\<forall>v. 0 \<le> a v)"
    by (auto simp: e intro!: exI[of _ "\<lambda>v. max 0 (capacity * soc_init)"])
  have r1: "\<forall>tc \<in> set (constraint_power_charge_limit m).
               \<forall>a. holds a (snd tc) \<longrightarrow> a (PowerCh (fst tc)) < 0"
    if "capacity * erate_ch < 0"
    using that by (auto simp: c)
  have r2: "\<forall>tc \<in> set (constraint_power_discharge_limit m).
               \<forall>a. holds a (snd tc) \<longrightarrow> a (PowerDch (fst tc)) < 0"
    if "capacity * erate_dch < 0"
    using that by (auto simp: c)
  have r3: "\<forall>tc \<in> set (constraint_energy_max m).
               \<forall>a. holds a (snd tc) \<longrightarrow> a (BessEnergy (fst tc)) < 0"
    if "capacity * soc_max < 0"
    using that by (auto simp: c)
  show ?thesis
    by (intro conjI allI impI dom 1 2 3 4 5 6 7 8 n4 n6; (elim conjE)?;
        (rule n1 n2 n3 n5 r1 r2 r3)?; assumption?)
qed

theorem variable_boxes_witness:
  "(\<exists>m. build_arbitrage_model (Some prices4) storage prices4 = Inr m \<and>
       snd (power_ch m) = NonNegativeReals \<and> snd (power_dch m) = NonNegativeReals \<and>
       snd (bess_energy m) = NonNegativeReals \<and>
       family_ok (\<lambda>v. 1 / 2) (constraint_power_charge_limit m) \<and>
       \<not> family_ok (\<lambda>v. 2) (constraint_power_charge_limit m) \<and>
       family_ok (\<lambda>v. 1 / 2) (constraint_energy_max m) \<and>
       \<not> family_ok (\<lambda>v. 0) (constraint_energy_min m) \<and>
       \<not> feasible (\<lambda>v. 2) m \<and>
       (\<exists>a. holds a (constraint_soc_end m) \<and> (\<forall>v. 0 \<le> a v))) \<and>
   (\<exists>m. build_arbitrage_model (Some prices1) storage_negative prices1 = Inr m \<and>
       \<not> family_ok (\<lambda>v. 0) (constraint_power_charge_limit m) \<and>
       \<not> family_ok (\<lambda>v. 0) (constraint_energy_max m))"
proof -
  obtain m where b: "build_arbitrage_model (Some prices4) storage prices4 = Inr m"
    using build_prices4 by blast
  have t: "time m = [0, 1, 2, 3]" using b by (rule time_of_prices4)
  note w = variable_boxes[OF b storage_keys(1-6)]
  from w have "snd (power_ch m) = NonNegativeReals" "snd (power_dch m) = NonNegativeReals"
    "snd (bess_energy m) = NonNegativeReals"
    by simp_all
  moreover from w have "family_ok (\<lambda>v. 1 / 2) (constraint_power_charge_limit m)"
    "\<not> family_ok (\<lambda>v. 2) (constraint_power_charge_limit m)"
    "family_ok (\<lambda>v. 1 / 2) (constraint_energy_max m)"
    "\<not> family_ok (\<lambda>v. 0) (constraint_energy_min m)"
    by (simp_all add: t)
  moreover from w have "\<not> feasible (\<lambda>v. 2) m"
    by (auto simp: t)
  moreover from w have "\<exists>a. holds a (constraint_soc_end m) \<and> (\<forall>v. 0 \<le> a v)"
    by simp
  ultimately have 1: "\<exists>m. build_arbitrage_model (Some prices4) storage prices4 = Inr m \<and>
       snd (power_ch m) = NonNegativeReals \<and> snd (power_dch m) = NonNegativeReals \<and>
       snd (bess_energy m) = NonNegativeReals \<and>
       family_ok (\<lambda>v. 1 / 2) (constraint_power_charge_limit m) \<and>
       \<not> family_ok (\<lambda>v. 2) (constraint_power_charge_limit m) \<and>
       family_ok (\<lambda>v. 1 / 2) (constraint_energy_max m) \<and>
       \<not> family_ok (\<lambda>v. 0) (constraint_energy_min m) \<and>
       \<not> feasible (\<lambda>v. 2) m \<and>
       (\<exists>a. holds a (constraint_soc_end m) \<and> (\<forall>v. 0 \<le> a v))"
    using b by (intro exI[of _ m]) simp
  obtain m' where b': "build_arbitrage_model (Some prices1) storage_negative prices1 = Inr m'"
    using build_negative_prices1 by blast
  have t': "time m' = [0]" using b' by (rule time_of_prices1)
  note w' = variable_boxes[OF b' storage_negative_keys(1-6)]
  from w' have "\<not> family_ok (\<lambda>v. 0) (constraint_power_charge_limit m')"
    "\<not> family_ok (\<lambda>v. 0) (constraint_energy_max m')"
    by (simp_all add: t')
  with b' have 2: "\<exists>m. build_arbitrage_model (Some prices1) storage_negative prices1 = Inr m \<and>
       \<not> family_ok (\<lambda>v. 0) (constraint_power_charge_limit m) \<and>
       \<not> family_ok (\<lambda>v. 0) (constraint_energy_max m)"
    by blast
  from 1 2 show ?thesis by (rule conjI)
qed

section \<open>Writing the results\<close>

lemma traverse_raised: "x \<in> set xs \<Longrightarrow> raised (f x) \<Longrightarrow> raised (traverse f xs)"
  by (induction xs) (auto split: sum.splits)

lemma value_of_Some [simp]: "var_values sol v = Some x \<Longrightarrow> value_of sol v = Inr x"
  by (simp add: value_of_def)

lemma value_of_None [simp]: "var_values sol v = None \<Longrightarrow> value_of sol v = Inl ValueError"
  by (simp add: value_of_def)

lemma value_of_status [simp]: "value_of (sol\<lparr>condition := c\<rparr>) v = value_of sol v"
  by (simp add: value_of_def)

lemma power_series:
  assumes "\<forall>t \<in> set s. var_values sol (PowerCh t) \<noteq> None \<and> var_values sol (PowerDch t) \<noteq> None"
  shows "traverse (\<lambda>t.
        and_then (value_of sol (PowerCh t)) (\<lambda>pc.
        and_then (value_of sol (PowerDch t)) (\<lambda>pd. Inr (pc - pd)))) s
      = Inr (map (\<lambda>t. the (var_values sol (PowerCh t)) - the (var_values sol (PowerDch t))) s)"
  using assms by (intro traverse_Inr) auto

lemma soc_series:
  assumes "\<forall>t \<in> set s. var_values sol (BessEnergy t) \<noteq> None" and "capacity \<noteq> 0"
  shows "traverse (\<lambda>t. and_then (value_of sol (BessEnergy t)) (\<lambda>e. py_div e capacity)) s
      = Inr (map (\<lambda>t. the (var_values sol (BessEnergy t)) / capacity) s)"
  using assms by (intro traverse_Inr) (auto simp: py_div_def)

lemma soc_series_zero:
  assumes "\<forall>t \<in> set s. var_values sol (BessEnergy t) \<noteq> None" and "s \<noteq> []"
  shows "traverse (\<lambda>t. and_then (value_of sol (BessEnergy t)) (\<lambda>e. py_div e 0)) s
      = Inl ZeroDivisionError"
proof -
  from assms obtain t ts e where "s = t # ts" and "var_values sol (BessEnergy t) = Some e"
    by (cases s) auto
  then show ?thesis by (simp add: py_div_def)
qed

lemma write_results_Inr:
  assumes "storage_params ''capacity'' = Some capacity" and "capacity \<noteq> 0"
    and "\<forall>t \<in> set (time model). var_values sol (PowerCh t) \<noteq> None \<and>
           var_values sol (PowerDch t) \<noteq> None \<and> var_values sol (BessEnergy t) \<noteq> None"
    and "length (time model) = len df"
  shows "write_results storage_params model sol df =
     Inr (df\<lparr>columns := (columns df)
        (''power'' \<mapsto> map (\<lambda>t. the (var_values sol (PowerCh t)) - the (var_values sol (PowerDch t))) (time model),
         ''soc'' \<mapsto> map (\<lambda>t. the (var_values sol (BessEnergy t)) / capacity) (time model))\<rparr>)"
proof -
  from assms(3) have p: "\<forall>t \<in> set (time model). var_values sol (PowerCh t) \<noteq> None \<and>
           var_values sol (PowerDch t) \<noteq> None"
    and e: "\<forall>t \<in> set (time model). var_values sol (BessEnergy t) \<noteq> None"
    by blast+
  show ?thesis
    using assms(1,4)
    by (simp add: write_results_def getitem_def power_series[OF p] soc_series[OF e assms(2)]
        setitem_def len_def)
qed

lemma write_results_zero_capacity:
  assumes "storage_params ''capacity'' = Some 0"
    and "\<forall>t \<in> set (time model). var_values sol (PowerCh t) \<noteq> None \<and>
           var_values sol (PowerDch t) \<noteq> None \<and> var_values sol (BessEnergy t) \<noteq> None"
    and "length (time model) = len df" and "time model \<noteq> []"
  shows "write_results storage_params model sol df = Inl ZeroDivisionError"
proof -
  from assms(2) have p: "\<forall>t \<in> set (time model). var_values sol (PowerCh t) \<noteq> None \<and>
           var_values sol (PowerDch t) \<noteq> None"
    and e: "\<forall>t \<in> set (time model). var_values sol (BessEnergy t) \<noteq> None"
    by blast+
  show ?thesis
    using assms(1,3)
    by (simp add: write_results_def getitem_def power_series[OF p] soc_series_zero[OF e assms(4)]
        setitem_def len_def)
qed

lemma write_results_missing_value:
  assumes "t \<in> set (time model)"
    and "var_values sol (PowerCh t) = None \<or> var_values sol (PowerDch t) = None \<or>
         var_values sol (BessEnergy t) = None"
  shows "raised (write_results storage_params model sol df)"
proof (cases "var_values sol (BessEnergy t) = None")
  case True
  then have "raised (and_then (value_of sol (BessEnergy t)) (\<lambda>e. py_div e capacity))" for capacity
    by simp
  with assms(1)
  have "raised (traverse (\<lambda>t. and_then (value_of sol (BessEnergy t)) (\<lambda>e. py_div e capacity)) (time model))"
    for capacity
    by (rule traverse_raised)
  then show ?thesis
    by (auto simp: write_results_def raised_iff and_then_eq_Inr)
next
  case False
  with assms(2) have "raised (and_then (value_of sol (PowerCh t)) (\<lambda>pc.
        and_then (value_of sol (PowerDch t)) (\<lambda>pd. Inr (pc - pd))))"
    by (cases "var_values sol (PowerCh t)") auto
  with assms(1)
  have "raised (traverse (\<lambda>t. and_then (value_of sol (PowerCh t)) (\<lambda>pc.
        and_then (value_of sol (PowerDch t)) (\<lambda>pd. Inr (pc - pd)))) (time model))"
    by (rule traverse_raised)
  then show ?thesis
    by (auto simp: write_results_def raised_iff and_then_eq_Inr)
qed

lemma write_results_status:
  "write_results storage_params model (sol\<lparr>condition := c\<rparr>) df = write_results storage_params model sol df"
  by (simp add: write_results_def)

lemma storage_empty_keys:
  "storage_empty ''capacity'' = Some 0" "storage_empty ''soc_init'' = Some 0.5"
  "storage_empty ''soc_min'' = Some 0.1" "storage_empty ''soc_max'' = Some 0.9"
  "storage_empty ''erate_ch'' = Some 1" "storage_empty ''erate_dch'' = Some 1"
  "storage_empty ''eff_ch'' = Some 0.95" "storage_empty ''eff_dch'' = Some 0.95"
  by (simp_all add: storage_empty_def storage_def)

lemma time_of_prices2:
  assumes "build_arbitrage_model (Some prices2) storage_params profile = Inr m"
  shows "time m = [0, 1]"
proof -
  from assms obtain d where "Some prices2 = Some d" and "time m = [0..int (len d) - 1]"
    by (rule built_model)
  then show ?thesis by (auto simp: prices2_facts upto_small)
qed

lemma build_prices2:
  "\<exists>m. build_arbitrage_model (Some prices2) storage prices2 = Inr m"
  "\<exists>m. build_arbitrage_model (Some prices2) storage_empty prices2 = Inr m"
  by (simp_all add: build_arbitrage_model_eq[OF storage_keys]
      build_arbitrage_model_eq[OF storage_empty_keys] prices2_facts)

text \<open>
  C7, as stated, fails: after a solve that reports \<open>infeasible\<close> and leaves the
  variables with values, the results are written as after any other solve.
\<close>

theorem infeasible_status_still_written:
  "map_sum id (\<lambda>d. (columns d ''power'', columns d ''soc''))
     (solve_and_write (\<lambda>m. \<lparr>condition = infeasible, var_values = (\<lambda>v. Some (1 / 2))\<rparr>) storage prices2)
   = Inr (Some [0, 0], Some [1 / 2, 1 / 2])"
proof -
  obtain m where b: "build_arbitrage_model (Some prices2) storage prices2 = Inr m"
    using build_prices2(1) by blast
  have t: "time m = [0, 1]" using b by (rule time_of_prices2)
  have "write_results storage m \<lparr>condition = infeasible, var_values = (\<lambda>v. Some (1 / 2))\<rparr> prices2 =
     Inr (prices2\<lparr>columns := (columns prices2)(''power'' \<mapsto> [0, 0], ''soc'' \<mapsto> [1 / 2, 1 / 2])\<rparr>)"
    by (subst write_results_Inr[where storage_params = storage, OF storage_keys(1)]) (simp_all add: t prices2_facts)
  then show ?thesis by (simp add: solve_and_write_def b)
qed

text \<open>
  C7, amended.  The cell that writes the results never looks at the termination
  condition of the solve: its outcome is the same for every condition.  It raises
  whenever one of the variables it reads holds no value (the \<open>ValueError\<close> of
  \<open>opt.value\<close>), so a missing value is never replaced by a default.  When every
  variable of every timestep holds a value, the capacity is not zero and the time set is
  as long as the frame, it writes \<open>power = power_ch[t] - power_dch[t]\<close> and
  \<open>soc = energy[t] / capacity\<close> for every timestep.
\<close>

theorem results_written_whatever_the_status:
  assumes "storage_params ''capacity'' = Some capacity"
  shows "write_results storage_params model (sol\<lparr>condition := c\<rparr>) df =
           write_results storage_params model sol df \<and>
         ((\<exists>t \<in> set (time model). var_values sol (PowerCh t) = None \<or>
              var_values sol (PowerDch t) = None \<or> var_values sol (BessEnergy t) = None) \<longrightarrow>
            raised (write_results storage_params model sol df)) \<and>
         ((\<forall>t \<in> set (time model). var_values sol (PowerCh t) \<noteq> None \<and>
              var_values sol (PowerDch t) \<noteq> None \<and> var_values sol (BessEnergy t) \<noteq> None) \<and>
            capacity \<noteq> 0 \<and> length (time model) = len df \<longrightarrow>
          write_results storage_params model sol df =
            Inr (df\<lparr>columns := (columns df)
              (''power'' \<mapsto> map (\<lambda>t. the (var_values sol (PowerCh t)) - the (var_values sol (PowerDch t)))
                             (time model),
               ''soc'' \<mapsto> map (\<lambda>t. the (var_values sol (BessEnergy t)) / capacity) (time model))\<rparr>))"
proof (intro conjI impI)
  show "write_results storage_params model (sol\<lparr>condition := c\<rparr>) df =
           write_results storage_params model sol df"
    by (rule write_results_status)
next
  assume "\<exists>t \<in> set (time model). var_values sol (PowerCh t) = None \<or>
              var_values sol (PowerDch t) = None \<or> var_values sol (BessEnergy t) = None"
  then show "raised (write_results storage_params model sol df)"
    using write_results_missing_value by blast
next
  assume "(\<forall>t \<in> set (time model). var_values sol (PowerCh t) \<noteq> None \<and>
              var_values sol (PowerDch t) \<noteq> None \<and> var_values sol (BessEnergy t) \<noteq> None) \<and>
            capacity \<noteq> 0 \<and> length (time model) = len df"
  then show "write_results storage_params model sol df =
            Inr (df\<lparr>columns := (columns df)
              (''power'' \<mapsto> map (\<lambda>t. the (var_values sol (PowerCh t)) - the (var_values sol (PowerDch t)))
                             (time model),
               ''soc'' \<mapsto> map (\<lambda>t. the (var_values sol (BessEnergy t)) / capacity) (time model))\<rparr>)"
    using assms by (intro write_results_Inr) simp_all
qed

theorem results_written_whatever_the_status_witness:
  "\<exists>m. build_arbitrage_model (Some prices2) storage prices2 = Inr m \<and>
     raised (write_results storage m \<lparr>condition = infeasible, var_values = Map.empty\<rparr> prices2) \<and>
     write_results storage m \<lparr>condition = unbounded, var_values = [PowerCh 0 \<mapsto> 1]\<rparr> prices2 =
       write_results storage m \<lparr>condition = optimal, var_values = [PowerCh 0 \<mapsto> 1]\<rparr> prices2 \<and>
     write_results storage m \<lparr>condition = optimal, var_values = (\<lambda>v. Some (1 / 2))\<rparr> prices2 =
       Inr (prices2\<lparr>columns := (columns prices2)(''power'' \<mapsto> [0, 0], ''soc'' \<mapsto> [1 / 2, 1 / 2])\<rparr>)"
proof -
  obtain m where b: "build_arbitrage_model (Some prices2) storage prices2 = Inr m"
    using build_prices2(1) by blast
  have t: "time m = [0, 1]" using b by (rule time_of_prices2)
  note w = results_written_whatever_the_status[where storage_params = storage and model = m, OF storage_keys(1)]
  from w[where sol = "\<lparr>condition = infeasible, var_values = Map.empty\<rparr>" and c = infeasible
      and df = prices2]
  have 1: "raised (write_results storage m \<lparr>condition = infeasible, var_values = Map.empty\<rparr> prices2)"
    by (auto simp: t)
  from w[where sol = "\<lparr>condition = optimal, var_values = [PowerCh 0 \<mapsto> 1]\<rparr>" and c = unbounded
      and df = prices2]
  have 2: "write_results storage m \<lparr>condition = unbounded, var_values = [PowerCh 0 \<mapsto> 1]\<rparr> prices2 =
       write_results storage m \<lparr>condition = optimal, var_values = [PowerCh 0 \<mapsto> 1]\<rparr> prices2"
    by simp
  from w[where sol = "\<lparr>condition = optimal, var_values = (\<lambda>v. Some (1 / 2))\<rparr>" and c = optimal
      and df = prices2]
  have 3: "write_results storage m \<lparr>condition = optimal, var_values = (\<lambda>v. Some (1 / 2))\<rparr> prices2 =
       Inr (prices2\<lparr>columns := (columns prices2)(''power'' \<mapsto> [0, 0], ''soc'' \<mapsto> [1 / 2, 1 / 2])\<rparr>)"
    by (auto simp: t prices2_facts)
  from b 1 2 3 show ?thesis by blast
qed

text \<open>
  C10.  The SOC column divides every \<open>energy[t]\<close> by \<open>storage["capacity"]\<close>
  without a guard.  With a non-empty time set, values for all variables and a frame of
  matching length, writing the results ends in \<open>ZeroDivisionError\<close> exactly when the
  capacity is \<open>0\<close>; for any other capacity the SOC column is \<open>energy[t] / capacity\<close>.
\<close>

theorem soc_division_unguarded:
  assumes "storage_params ''capacity'' = Some capacity"
    and "time model \<noteq> []"
    and "\<forall>t \<in> set (time model). var_values sol (PowerCh t) \<noteq> None \<and>
           var_values sol (PowerDch t) \<noteq> None \<and> var_values sol (BessEnergy t) \<noteq> None"
    and "length (time model) = len df"
  shows "(write_results storage_params model sol df = Inl ZeroDivisionError \<longleftrightarrow> capacity = 0) \<and>
         (capacity \<noteq> 0 \<longrightarrow>
            (\<exists>df'. write_results storage_params model sol df = Inr df' \<and>
               columns df' ''soc'' =
                 Some (map (\<lambda>t. the (var_values sol (BessEnergy t)) / capacity) (time model))))"
proof (cases "capacity = 0")
  case True
  with assms(1) have "storage_params ''capacity'' = Some 0" by simp
  from write_results_zero_capacity[where storage_params = storage_params, OF this assms(3,4,2)] True show ?thesis by simp
next
  case False
  from write_results_Inr[where storage_params = storage_params, OF assms(1) False assms(3,4)] False show ?thesis by simp
qed

theorem soc_division_unguarded_witness:
  "(\<exists>m. build_arbitrage_model (Some prices2) storage_empty prices2 = Inr m \<and>
      write_results storage_empty m \<lparr>condition = optimal, var_values = (\<lambda>v. Some 0)\<rparr> prices2 =
        Inl ZeroDivisionError) \<and>
   (\<exists>m. build_arbitrage_model (Some prices2) storage prices2 = Inr m \<and>
      map_sum id (\<lambda>d. columns d ''soc'')
        (write_results storage m \<lparr>condition = optimal, var_values = (\<lambda>v. Some (1 / 2))\<rparr> prices2) =
        Inr (Some [1 / 2, 1 / 2]))"
proof -
  obtain m0 where b0: "build_arbitrage_model (Some prices2) storage_empty prices2 = Inr m0"
    using build_prices2(2) by blast
  have t0: "time m0 = [0, 1]" using b0 by (rule time_of_prices2)
  have "write_results storage_empty m0 \<lparr>condition = optimal, var_values = (\<lambda>v. Some 0)\<rparr> prices2 =
        Inl ZeroDivisionError"
    using soc_division_unguarded[where storage_params = storage_empty and model = m0
        and sol = "\<lparr>condition = optimal, var_values = (\<lambda>v. Some 0)\<rparr>" and df = prices2,
        OF storage_empty_keys(1)]
    by (simp add: t0 prices2_facts)
  with b0 have 1: "\<exists>m. build_arbitrage_model (Some prices2) storage_empty prices2 = Inr m \<and>
      write_results storage_empty m \<lparr>condition = optimal, var_values = (\<lambda>v. Some 0)\<rparr> prices2 =
        Inl ZeroDivisionError"
    by blast
  obtain m where b: "build_arbitrage_model (Some prices2) storage prices2 = Inr m"
    using build_prices2(1) by blast
  have t: "time m = [0, 1]" using b by (rule time_of_prices2)
  have "map_sum id (\<lambda>d. columns d ''soc'')
        (write_results storage m \<lparr>condition = optimal, var_values = (\<lambda>v. Some (1 / 2))\<rparr> prices2) =
        Inr (Some [1 / 2, 1 / 2])"
    using soc_division_unguarded[where storage_params = storage and model = m
        and sol = "\<lparr>condition = optimal, var_values = (\<lambda>v. Some (1 / 2))\<rparr>" and df = prices2,
        OF storage_keys(1)]
    by (auto simp: t prices2_facts)
  with b have 2: "\<exists>m. build_arbitrage_model (Some prices2) storage prices2 = Inr m \<and>
      map_sum id (\<lambda>d. columns d ''soc'')
        (write_results storage m \<lparr>condition = optimal, var_values = (\<lambda>v. Some (1 / 2))\<rparr> prices2) =
        Inr (Some [1 / 2, 1 / 2])"
    by blast
  from 1 2 show ?thesis by (rule conjI)
qed

end
